theory Spec2Isabelle
  imports Complex_Main
begin

section \<open>JavaScript values\<close>

text \<open>
  The values the two servers handle are what \<^verbatim>\<open>JSON.parse\<close> produces, plus
  \<^verbatim>\<open>undefined\<close> (the result of reading a missing property). The program never computes
  with a number: it tests its truthiness and interpolates it into a template literal. A number is
  therefore carried as its canonical rendering, the string that \<^verbatim>\<open>String(n)\<close> returns
  (\<open>''0''\<close> for both zeros). An object is the list of its own properties in the order in which
  JavaScript enumerates them: the array indices first, ascending, then the other keys in the
  order of their insertion.
\<close>

datatype jsval =
    JUndefined
  | JNull
  | JBool bool
  | JNum string
  | JStr string
  | JArr "jsval list"
  | JObj "(string \<times> jsval) list"

type_synonym props = "(string \<times> jsval) list"

text \<open>Thrown values. \<open>Error\<close> is \<^verbatim>\<open>new Error(msg)\<close> of the source; \<open>TypeError\<close> is
  what the runtime throws when a property of \<^verbatim>\<open>null\<close> or \<^verbatim>\<open>undefined\<close> is read
  or a non-function is called; \<open>Rejected\<close> is a rejection of \<^verbatim>\<open>fetch\<close> or of
  \<^verbatim>\<open>response.json()\<close>, with the message the platform gave it.\<close>

datatype exn = Error string | TypeError string | Rejected string

fun message :: "exn \<Rightarrow> string" where
  "message (Error m) = m"
| "message (TypeError m) = m"
| "message (Rejected m) = m"

fun truthy :: "jsval \<Rightarrow> bool" where
  "truthy JUndefined = False"
| "truthy JNull = False"
| "truthy (JBool b) = b"
| "truthy (JNum r) = (r \<noteq> ''0'' \<and> r \<noteq> ''NaN'')"
| "truthy (JStr s) = (s \<noteq> [])"
| "truthy (JArr xs) = True"
| "truthy (JObj kvs) = True"

text \<open>\<^verbatim>\<open>a || b\<close> on values whose evaluation cannot throw.\<close>

definition js_or :: "jsval \<Rightarrow> jsval \<Rightarrow> jsval" where
  "js_or a b = (if truthy a then a else b)"

fun typeof_object :: "jsval \<Rightarrow> bool" where
  "typeof_object JNull = True"
| "typeof_object (JArr xs) = True"
| "typeof_object (JObj kvs) = True"
| "typeof_object v = False"

fun typeof_string :: "jsval \<Rightarrow> bool" where
  "typeof_string (JStr s) = True"
| "typeof_string v = False"

fun nullish :: "jsval \<Rightarrow> bool" where
  "nullish JUndefined = True"
| "nullish JNull = True"
| "nullish v = False"

subsection \<open>Strings\<close>

fun join_with :: "string \<Rightarrow> string list \<Rightarrow> string" where
  "join_with sep [] = []"
| "join_with sep [x] = x"
| "join_with sep (x # y # ys) = x @ sep @ join_with sep (y # ys)"

text \<open>\<^verbatim>\<open>s.split(d)\<close> for a one-character separator: never the empty list.\<close>

fun split_on :: "char \<Rightarrow> string \<Rightarrow> string list" where
  "split_on d [] = [[]]"
| "split_on d (c # cs) =
     (if c = d then [] # split_on d cs
      else (case split_on d cs of [] \<Rightarrow> [[c]] | p # ps \<Rightarrow> (c # p) # ps))"

definition startsWith :: "string \<Rightarrow> string \<Rightarrow> bool" where
  "startsWith s p = (take (length p) s = p)"

text \<open>\<^verbatim>\<open>s.replace(pat, "")\<close> with a string pattern: the first occurrence goes.\<close>

fun remove_first :: "string \<Rightarrow> string \<Rightarrow> string" where
  "remove_first pat [] = []"
| "remove_first pat (c # cs) =
     (if startsWith (c # cs) pat then drop (length pat) (c # cs) else c # remove_first pat cs)"

text \<open>\<^verbatim>\<open>s.includes(p)\<close> on strings.\<close>

fun str_includes :: "string \<Rightarrow> string \<Rightarrow> bool" where
  "str_includes [] p = (p = [])"
| "str_includes (c # cs) p = (startsWith (c # cs) p \<or> str_includes cs p)"

text \<open>The decimal digits of a natural number, as \<^verbatim>\<open>String(n)\<close> prints an array index or
  an HTTP status.\<close>

definition digit :: "nat \<Rightarrow> char" where
  "digit d = ''0123456789'' ! d"

function show_nat :: "nat \<Rightarrow> string" where
  "show_nat n = (if n < 10 then [digit n] else show_nat (n div 10) @ [digit (n mod 10)])"
  by pat_completeness auto
termination
  by (relation "measure id") auto

text \<open>\<^verbatim>\<open>String(v)\<close>, as a template literal applies it. An array joins its elements with
  commas, \<^verbatim>\<open>null\<close> and \<^verbatim>\<open>undefined\<close> elements as the empty string. An object prints
  as \<^verbatim>\<open>[object Object]\<close> through the \<^verbatim>\<open>toString\<close> it inherits; when it has a property
  \<^verbatim>\<open>toString\<close> of its own (never a function, in a value that came from JSON) the
  conversion throws, also when the object is an element of the array being joined.\<close>

fun to_string :: "jsval \<Rightarrow> exn + string"
  and to_strings :: "jsval list \<Rightarrow> exn + string list" where
  "to_string JUndefined = Inr ''undefined''"
| "to_string JNull = Inr ''null''"
| "to_string (JBool b) = Inr (if b then ''true'' else ''false'')"
| "to_string (JNum r) = Inr r"
| "to_string (JStr s) = Inr s"
| "to_string (JArr xs) =
     (case to_strings xs of Inl e \<Rightarrow> Inl e | Inr ss \<Rightarrow> Inr (join_with '','' ss))"
| "to_string (JObj kvs) =
     (if ''toString'' \<in> fst ` set kvs then Inl (TypeError ''Cannot convert object to primitive value'')
      else Inr ''[object Object]'')"
| "to_strings [] = Inr []"
| "to_strings (x # xs) =
     (case (if nullish x then Inr [] else to_string x) of
        Inl e \<Rightarrow> Inl e
      | Inr s \<Rightarrow> (case to_strings xs of Inl e \<Rightarrow> Inl e | Inr ss \<Rightarrow> Inr (s # ss)))"

text \<open>\<^verbatim>\<open>String(v)\<close> for a parameter that the source declares \<^verbatim>\<open>string\<close> (the
  \<^verbatim>\<open>userId\<close> and \<^verbatim>\<open>accessToken\<close> of \<^verbatim>\<open>makeGenVRRequest\<close>): at run time it holds a
  string, or \<^verbatim>\<open>undefined\<close> when the arguments lack the field, and the conversion
  cannot throw. (The empty string stands for the values it throws on.)\<close>

definition text_of :: "jsval \<Rightarrow> string" where
  "text_of v = (case to_string v of Inl e \<Rightarrow> [] | Inr s \<Rightarrow> s)"

subsection \<open>Objects\<close>

fun obj_get :: "props \<Rightarrow> string \<Rightarrow> jsval" where
  "obj_get [] k = JUndefined"
| "obj_get ((k', v) # kvs) k = (if k' = k then v else obj_get kvs k)"

text \<open>An array index: a canonical decimal numeral below \<open>2^32 - 1\<close>.\<close>

definition digit_val :: "char \<Rightarrow> nat" where
  "digit_val c = length (takeWhile (\<lambda>d. d \<noteq> c) ''0123456789'')"

definition nat_of_digits :: "string \<Rightarrow> nat" where
  "nat_of_digits s = foldl (\<lambda>n c. 10 * n + digit_val c) 0 s"

definition array_index :: "string \<Rightarrow> nat option" where
  "array_index k =
     (if k = [] then None
      else if \<not> list_all (\<lambda>c. c \<in> set ''0123456789'') k then None
      else if take 1 k = ''0'' \<and> k \<noteq> ''0'' then None
      else if nat_of_digits k < 4294967295 then Some (nat_of_digits k)
      else None)"

text \<open>Where a new key goes: an array index before the first larger index or other key, any
  other key last.\<close>

definition comes_before :: "string \<Rightarrow> string \<Rightarrow> bool" where
  "comes_before k k' =
     (case array_index k of
        None \<Rightarrow> False
      | Some n \<Rightarrow> (case array_index k' of None \<Rightarrow> True | Some n' \<Rightarrow> n < n'))"

fun obj_insert :: "string \<Rightarrow> 'a \<Rightarrow> (string \<times> 'a) list \<Rightarrow> (string \<times> 'a) list" where
  "obj_insert k v [] = [(k, v)]"
| "obj_insert k v ((k', v') # kvs) =
     (if comes_before k k' then (k, v) # (k', v') # kvs else (k', v') # obj_insert k v kvs)"

text \<open>Defining the own property \<open>k\<close> (in an object literal or a spread): an existing property
  keeps its place and takes the new value, a new one is inserted.\<close>

definition obj_put :: "string \<Rightarrow> 'a \<Rightarrow> (string \<times> 'a) list \<Rightarrow> (string \<times> 'a) list" where
  "obj_put k v kvs =
     (if k \<in> fst ` set kvs then map (\<lambda>kv. if fst kv = k then (k, v) else kv) kvs
      else obj_insert k v kvs)"

text \<open>The assignment \<^verbatim>\<open>o[k] = v\<close> on a plain object: for \<^verbatim>\<open>__proto__\<close> it goes to the
  setter of the prototype and the object gets no property of its own.\<close>

definition obj_set :: "string \<Rightarrow> 'a \<Rightarrow> (string \<times> 'a) list \<Rightarrow> (string \<times> 'a) list" where
  "obj_set k v kvs = (if k = ''__proto__'' then kvs else obj_put k v kvs)"

text \<open>\<^verbatim>\<open>delete o[k]\<close>.\<close>

definition obj_delete :: "string \<Rightarrow> (string \<times> 'a) list \<Rightarrow> (string \<times> 'a) list" where
  "obj_delete k kvs = filter (\<lambda>kv. fst kv \<noteq> k) kvs"

text \<open>\<^verbatim>\<open>{...target, ...src}\<close>: the properties of \<open>src\<close> are assigned in order.\<close>

fun obj_assign :: "props \<Rightarrow> props \<Rightarrow> props" where
  "obj_assign target [] = target"
| "obj_assign target ((k, v) # src) = obj_assign (obj_put k v target) src"

text \<open>The own enumerable properties that a spread or \<^verbatim>\<open>Object.entries\<close> sees: those of
  an object, the indices of an array, the characters of a string, nothing otherwise.\<close>

fun own_props :: "jsval \<Rightarrow> props" where
  "own_props (JObj kvs) = kvs"
| "own_props (JArr xs) = zip (map show_nat [0..<length xs]) xs"
| "own_props (JStr s) = zip (map show_nat [0..<length s]) (map (\<lambda>c. JStr [c]) s)"
| "own_props v = []"

text \<open>\<^verbatim>\<open>v.k\<close> for a base that is neither \<^verbatim>\<open>null\<close> nor \<^verbatim>\<open>undefined\<close>, and a
  name \<open>k\<close> among those this program reads (\<^verbatim>\<open>data\<close>, \<^verbatim>\<open>status\<close>, \<^verbatim>\<open>error\<close>,
  \<^verbatim>\<open>id\<close>, \<^verbatim>\<open>parameters\<close>, \<^verbatim>\<open>model\<close>, \<^verbatim>\<open>userId\<close>, ...): none of them is a
  property of an array, a string, a number or a boolean.\<close>

fun get_prop :: "jsval \<Rightarrow> string \<Rightarrow> jsval" where
  "get_prop (JObj kvs) k = obj_get kvs k"
| "get_prop v k = JUndefined"

text \<open>The message of the TypeError for reading \<open>k\<close> of a nullish \<open>v\<close>.\<close>

definition cannot_read :: "jsval \<Rightarrow> string \<Rightarrow> exn" where
  "cannot_read v k =
     TypeError (''Cannot read properties of '' @ (if v = JNull then ''null'' else ''undefined'')
                @ '' (reading '' @ [CHR 0x27] @ k @ [CHR 0x27] @ '')'')"

text \<open>\<^verbatim>\<open>v?.k\<close>.\<close>

definition opt_prop :: "jsval \<Rightarrow> string \<Rightarrow> jsval" where
  "opt_prop v k = (if nullish v then JUndefined else get_prop v k)"

section \<open>The model catalog and the tool registry\<close>

text \<open>One entry of the catalog (\<^verbatim>\<open>curated-models.json\<close> in the Worker, the list that
  \<^verbatim>\<open>fetchAvailableModels\<close> builds in the standalone server). The two data files are not part
  of the sources; the catalog and the schema cache are parameters of everything below.\<close>

record ModelDescriptor =
  model_category :: string
  model_subcategory :: string
  model_description :: jsval

subsection \<open>Worker: \<^verbatim>\<open>MyMCP.init\<close> (src/index.ts)\<close>

definition curatedModelKeys :: "ModelDescriptor list \<Rightarrow> string list" where
  "curatedModelKeys curatedModels =
     map (\<lambda>model. model_category model @ ''/'' @ model_subcategory model) curatedModels"

text \<open>The validators of \<^verbatim>\<open>zod\<close> that \<^verbatim>\<open>init\<close> builds, each with the argument of
  its \<^verbatim>\<open>describe\<close>.\<close>

datatype zod = ZString jsval | ZNumber jsval | ZBoolean jsval | ZArrayAny jsval | ZAny jsval

definition zod_of :: "jsval \<Rightarrow> zod" where
  "zod_of property =
     (let d = js_or (get_prop property ''description'') (JStr [])
      in if get_prop property ''type'' = JStr ''string'' then ZString d
         else if get_prop property ''type'' = JStr ''number'' then ZNumber d
         else if get_prop property ''type'' = JStr ''boolean'' then ZBoolean d
         else if get_prop property ''type'' = JStr ''array'' then ZArrayAny d
         else ZAny d)"

text \<open>The loop over \<^verbatim>\<open>Object.entries(schema.properties)\<close>: every property is converted,
  none is skipped. Reading \<^verbatim>\<open>property.type\<close> of a \<^verbatim>\<open>null\<close> property throws.\<close>

fun convert_properties :: "props \<Rightarrow> (string \<times> zod) list \<Rightarrow> exn + (string \<times> zod) list" where
  "convert_properties [] inputSchema = Inr inputSchema"
| "convert_properties ((key, property) # rest) inputSchema =
     (if nullish property then Inl (cannot_read property ''type'')
      else convert_properties rest (obj_set key (zod_of property) inputSchema))"

definition fallback_inputSchema :: "(string \<times> zod) list" where
  "fallback_inputSchema =
     [(''prompt'', ZString (JStr ''The input prompt or description for the AI model'')),
      (''userId'', ZString (JStr ''GenVR User ID'')),
      (''accessToken'', ZString (JStr ''GenVR Access Token''))]"

text \<open>What \<^verbatim>\<open>this.server.tool(toolName, inputSchema, handler)\<close> receives; the handler is a
  closure over \<open>category\<close> and \<open>subcategory\<close>.\<close>

record registration =
  reg_name :: string
  reg_inputSchema :: "(string \<times> zod) list"
  reg_category :: string
  reg_subcategory :: string

text \<open>\<^verbatim>\<open>const [category, subcategory] = modelKey.split('/')\<close>: a missing second part is
  \<^verbatim>\<open>undefined\<close>, which the template literals print as such.\<close>

definition split_modelKey :: "string \<Rightarrow> string \<times> string" where
  "split_modelKey modelKey =
     (case split_on (CHR ''/'') modelKey of
        [] \<Rightarrow> (''undefined'', ''undefined'')
      | [category] \<Rightarrow> (category, ''undefined'')
      | category # subcategory # rest \<Rightarrow> (category, subcategory))"

definition register_model :: "jsval \<Rightarrow> string \<Rightarrow> exn + registration" where
  "register_model schemasCache modelKey =
     (let (category, subcategory) = split_modelKey modelKey;
          toolName = ''generate_'' @ category @ ''_'' @ subcategory;
          schemaKey = category @ ''/'' @ subcategory;
          schema = get_prop schemasCache schemaKey
      in case (if truthy schema \<and> truthy (get_prop schema ''properties'')
               then convert_properties (own_props (get_prop schema ''properties'')) []
               else Inr fallback_inputSchema) of
           Inl e \<Rightarrow> Inl e
         | Inr inputSchema \<Rightarrow>
             Inr \<lparr>reg_name = toolName, reg_inputSchema = inputSchema,
                  reg_category = category, reg_subcategory = subcategory\<rparr>)"

text \<open>The \<^verbatim>\<open>for\<close> loop of \<^verbatim>\<open>init\<close> over the model keys; an exception ends it.
  \<open>registered\<close> holds the names registered so far: \<^verbatim>\<open>McpServer.tool\<close> (of the SDK, outside
  the repository) throws when it is given a name it already has.\<close>

fun register_all :: "jsval \<Rightarrow> string list \<Rightarrow> string list \<Rightarrow> exn + registration list" where
  "register_all schemasCache registered [] = Inr []"
| "register_all schemasCache registered (modelKey # rest) =
     (case register_model schemasCache modelKey of
        Inl e \<Rightarrow> Inl e
      | Inr r \<Rightarrow>
          if reg_name r \<in> set registered
          then Inl (Error (''Tool '' @ reg_name r @ '' is already registered''))
          else (case register_all schemasCache (reg_name r # registered) rest of
                  Inl e \<Rightarrow> Inl e
                | Inr rs \<Rightarrow> Inr (r # rs)))"

text \<open>\<^verbatim>\<open>init\<close> registers the two calculator tools first, then the tools of the catalog; the
  result lists the latter.\<close>

definition init :: "ModelDescriptor list \<Rightarrow> jsval \<Rightarrow> exn + registration list" where
  "init curatedModels schemasCache =
     register_all schemasCache [''calculate'', ''add''] (curatedModelKeys curatedModels)"

subsection \<open>Standalone server: \<^verbatim>\<open>generateTools\<close>\<close>

record ToolDefinition =
  tool_name :: string
  tool_description :: string
  tool_inputSchema :: jsval

fun is_array :: "jsval \<Rightarrow> bool" where
  "is_array (JArr xs) = True"
| "is_array v = False"

text \<open>\<^verbatim>\<open>required?.includes(key)\<close>: membership in an array, a substring test on a string,
  \<^verbatim>\<open>undefined\<close> on a nullish \<open>required\<close>, and a TypeError on anything else (there
  \<^verbatim>\<open>includes\<close> is not a function).\<close>

fun required_includes :: "jsval \<Rightarrow> string \<Rightarrow> exn + bool" where
  "required_includes JUndefined key = Inr False"
| "required_includes JNull key = Inr False"
| "required_includes (JArr xs) key = Inr (JStr key \<in> set xs)"
| "required_includes (JStr s) key = Inr (str_includes s key)"
| "required_includes v key = Inl (TypeError ''cachedSchema.schema.required?.includes is not a function'')"

definition put_if :: "bool \<Rightarrow> string \<Rightarrow> jsval \<Rightarrow> props \<Rightarrow> props" where
  "put_if c k v ob = (if c then obj_put k v ob else ob)"

definition propDef_of :: "string \<Rightarrow> jsval \<Rightarrow> props" where
  "propDef_of key p =
     put_if (get_prop p ''type'' = JStr ''array'' \<and> truthy (get_prop p ''items'')) ''items'' (get_prop p ''items'')
     (put_if (get_prop p ''maxItems'' \<noteq> JUndefined) ''maxItems'' (get_prop p ''maxItems'')
     (put_if (get_prop p ''maximum'' \<noteq> JUndefined) ''maximum'' (get_prop p ''maximum'')
     (put_if (get_prop p ''minimum'' \<noteq> JUndefined) ''minimum'' (get_prop p ''minimum'')
     (put_if (get_prop p ''default'' \<noteq> JUndefined) ''default'' (get_prop p ''default'')
     (put_if (truthy (get_prop p ''enum'') \<and> is_array (get_prop p ''enum'')) ''enum'' (get_prop p ''enum'')
       [(''type'', js_or (get_prop p ''type'') (JStr ''string'')),
        (''description'', js_or (get_prop p ''description'') (JStr (''Parameter: '' @ key)))])))))"

definition reserved_key :: "string \<Rightarrow> bool" where
  "reserved_key key =
     (key = ''category_genvr'' \<or> key = ''subcategory_genvr'' \<or> key = ''uid'' \<or> key = ''token'')"

text \<open>The callback of \<^verbatim>\<open>Object.entries(cachedSchema.schema.properties).forEach\<close>, run over
  the entries with the two accumulators \<open>properties\<close> and \<open>required\<close>.\<close>

fun translate_entries :: "jsval \<Rightarrow> props \<Rightarrow> props \<Rightarrow> string list \<Rightarrow> exn + props \<times> string list" where
  "translate_entries schema [] properties required = Inr (properties, required)"
| "translate_entries schema ((key, p) # rest) properties required =
     (if nullish p then Inl (cannot_read p ''display'')
      else if get_prop p ''display'' = JStr ''hidden'' then translate_entries schema rest properties required
      else if reserved_key key then translate_entries schema rest properties required
      else (case required_includes (get_prop schema ''required'') key of
              Inl e \<Rightarrow> Inl e
            | Inr b \<Rightarrow>
                translate_entries schema rest (obj_set key (JObj (propDef_of key p)) properties)
                  (if b then required @ [key] else required)))"

definition make_inputSchema :: "props \<Rightarrow> string list \<Rightarrow> jsval" where
  "make_inputSchema properties required =
     JObj [(''type'', JStr ''object''), (''properties'', JObj properties),
           (''required'', JArr (map JStr required))]"

definition translate_schema :: "jsval \<Rightarrow> exn + jsval" where
  "translate_schema cachedSchema =
     (if truthy cachedSchema \<and> truthy (get_prop cachedSchema ''schema'')
         \<and> truthy (get_prop (get_prop cachedSchema ''schema'') ''properties'')
      then (case translate_entries (get_prop cachedSchema ''schema'')
                   (own_props (get_prop (get_prop cachedSchema ''schema'') ''properties'')) [] [] of
              Inl e \<Rightarrow> Inl e
            | Inr (properties, required) \<Rightarrow> Inr (make_inputSchema properties required))
      else Inr (make_inputSchema [] []))"

definition generate_tool :: "jsval \<Rightarrow> ModelDescriptor \<Rightarrow> exn + ToolDefinition" where
  "generate_tool schemasCache model =
     (let schemaKey = model_category model @ ''/'' @ model_subcategory model;
          cachedSchema = get_prop schemasCache schemaKey
      in case translate_schema cachedSchema of
           Inl e \<Rightarrow> Inl e
         | Inr inputSchema \<Rightarrow>
             (case to_string (js_or (model_description model)
                      (js_or (opt_prop cachedSchema ''description'') (JStr []))) of
                Inl e \<Rightarrow> Inl e
              | Inr text \<Rightarrow>
                  Inr \<lparr>tool_name = ''generate_'' @ model_category model @ ''_'' @ model_subcategory model,
                       tool_description =
                         ''Generate content using '' @ model_category model @ ''/'' @ model_subcategory model
                         @ ''. Category: '' @ model_category model @ '', Model: '' @ model_subcategory model
                         @ ''. '' @ text,
                       tool_inputSchema = inputSchema\<rparr>))"

fun generateTools :: "jsval \<Rightarrow> ModelDescriptor list \<Rightarrow> exn + ToolDefinition list" where
  "generateTools schemasCache [] = Inr []"
| "generateTools schemasCache (model # rest) =
     (case generate_tool schemasCache model of
        Inl e \<Rightarrow> Inl e
      | Inr t \<Rightarrow> (case generateTools schemasCache rest of Inl e \<Rightarrow> Inl e | Inr ts \<Rightarrow> Inr (t # ts)))"

section \<open>The invocation router of the standalone server\<close>

text \<open>The parse of a tool name in the \<^verbatim>\<open>CallToolRequestSchema\<close> handler: the prefix is
  removed, the rest is split at every underscore, the first part is the category, the others
  joined again are the subcategory; then the three short category names are expanded.\<close>

definition expand_category :: "string \<Rightarrow> string" where
  "expand_category category =
     (let c1 = (if category = ''image'' then ''imagegen'' else category);
          c2 = (if c1 = ''video'' then ''videogen'' else c1)
      in if c2 = ''audio'' then ''audiogen'' else c2)"

definition parse_tool_name :: "string \<Rightarrow> string \<times> string" where
  "parse_tool_name name =
     (case split_on (CHR ''_'') (remove_first ''generate_'' name) of
        [] \<Rightarrow> (''undefined'', [])
      | category # rest \<Rightarrow> (expand_category category, join_with ''_'' rest))"

section \<open>The remote API and the trace of a run\<close>

text \<open>A response as the program sees it: the status line, what \<^verbatim>\<open>response.text()\<close> gives,
  and what \<^verbatim>\<open>response.json()\<close> gives (the parsed body, or the message of its rejection
  when the body is not JSON).\<close>

record response =
  status :: nat
  statusText :: string
  body_text :: string
  body_json :: "string + jsval"

definition ok :: "response \<Rightarrow> bool" where
  "ok r = (200 \<le> status r \<and> status r \<le> 299)"

text \<open>\<^verbatim>\<open>fetch\<close> either rejects (a network error, with its message) or resolves.\<close>

datatype outcome = Fails string | Responds response

text \<open>A failure at the transport level: a network error or a status outside 200..299.\<close>

fun transport_failure :: "outcome \<Rightarrow> bool" where
  "transport_failure (Fails m) = True"
| "transport_failure (Responds r) = (\<not> ok r)"

text \<open>A request as \<^verbatim>\<open>fetch\<close> receives it. \<open>req_body\<close> is the object given to
  \<^verbatim>\<open>JSON.stringify\<close>, \<open>None\<close> when no body is sent.\<close>

record request =
  url :: string
  http_method :: string
  authorization :: string
  req_body :: "jsval option"

text \<open>What a run does to the outside: the requests it sends and the timers it waits for
  (milliseconds), in order.\<close>

datatype event = Fetch request | Sleep real

fun is_fetch :: "event \<Rightarrow> bool" where
  "is_fetch (Fetch r) = True"
| "is_fetch (Sleep d) = False"

definition requests_sent :: "event list \<Rightarrow> nat" where
  "requests_sent tr = length (filter is_fetch tr)"

fun slept :: "event \<Rightarrow> real" where
  "slept (Fetch r) = 0"
| "slept (Sleep d) = d"

definition total_sleep :: "event list \<Rightarrow> real" where
  "total_sleep tr = sum_list (map slept tr)"

text \<open>The remote system: its answer to a request, given how many requests came before.\<close>

type_synonym remote = "nat \<Rightarrow> request \<Rightarrow> outcome"

text \<open>\<^verbatim>\<open>Math.min(2000 * Math.pow(1.5, i), 10000)\<close>. The products 2000, 3000, 4500, 6750
  and 10125 of the first five attempts are exact in doubles; from \<open>i = 4\<close> on the product exceeds
  the cap and only grows (to \<^verbatim>\<open>Infinity\<close> in the end), so the minimum is 10000. The real
  number below is therefore the double the program computes.\<close>

definition delay :: "nat \<Rightarrow> real" where
  "delay i = min (2000 * 1.5 ^ i) 10000"

definition job_body :: "jsval \<Rightarrow> string \<Rightarrow> string \<Rightarrow> jsval" where
  "job_body taskId category subcategory =
     JObj [(''id'', taskId), (''category'', JStr category), (''subcategory'', JStr subcategory)]"

text \<open>\<^verbatim>\<open>statusData.data?.status || statusData.status\<close> and the same for
  \<^verbatim>\<open>error\<close>, for a \<open>statusData\<close> that is not nullish.\<close>

definition status_of :: "jsval \<Rightarrow> jsval" where
  "status_of statusData =
     js_or (opt_prop (get_prop statusData ''data'') ''status'') (get_prop statusData ''status'')"

definition error_of :: "jsval \<Rightarrow> jsval" where
  "error_of statusData =
     js_or (opt_prop (get_prop statusData ''data'') ''error'') (get_prop statusData ''error'')"

text \<open>What \<^verbatim>\<open>throw new Error(`Task failed: ${error || "Unknown error"}`)\<close> throws: that
  error, or the TypeError of the template literal when \<open>error\<close> cannot be converted.\<close>

definition task_failed :: "jsval \<Rightarrow> exn" where
  "task_failed statusData =
     (case to_string (js_or (error_of statusData) (JStr ''Unknown error'')) of
        Inl e \<Rightarrow> e
      | Inr detail \<Rightarrow> Error (''Task failed: '' @ detail))"

section \<open>Worker (src/index.ts)\<close>

definition GENVR_API_BASE :: string where
  "GENVR_API_BASE = ''https://api.genvrresearch.com/api/v1''"

definition worker_request :: "string \<Rightarrow> jsval \<Rightarrow> jsval \<Rightarrow> jsval \<Rightarrow> request" where
  "worker_request endpoint body userId accessToken =
     \<lparr>url = GENVR_API_BASE @ endpoint,
      http_method = (if truthy body then ''POST'' else ''GET''),
      authorization = ''Bearer '' @ text_of accessToken,
      req_body = Some (JObj (obj_put ''uid'' userId (obj_assign [] (own_props body))))\<rparr>"

text \<open>\<^verbatim>\<open>makeGenVRRequest\<close>: every failure inside the \<^verbatim>\<open>try\<close> (a rejected fetch, a
  response that is not ok, a body that is not JSON) is logged and becomes \<^verbatim>\<open>null\<close>. For a
  falsy \<open>body\<close> the method is GET while a body is still given: \<^verbatim>\<open>fetch\<close> refuses that
  before anything is sent, which is one more failure caught.\<close>

fun json_or_null :: "outcome \<Rightarrow> jsval" where
  "json_or_null (Fails m) = JNull"
| "json_or_null (Responds r) =
     (if \<not> ok r then JNull else (case body_json r of Inl m \<Rightarrow> JNull | Inr v \<Rightarrow> v))"

definition makeGenVRRequest ::
  "remote \<Rightarrow> string \<Rightarrow> jsval \<Rightarrow> jsval \<Rightarrow> jsval \<Rightarrow> event list \<Rightarrow> jsval \<times> event list" where
  "makeGenVRRequest net endpoint body userId accessToken tr =
     (let req = worker_request endpoint body userId accessToken
      in if \<not> truthy body then (JNull, tr)
         else (json_or_null (net (requests_sent tr) req), tr @ [Fetch req]))"

function waitForCompletion ::
  "remote \<Rightarrow> jsval \<Rightarrow> string \<Rightarrow> string \<Rightarrow> jsval \<Rightarrow> jsval \<Rightarrow> nat \<Rightarrow> nat \<Rightarrow> event list
     \<Rightarrow> (exn + jsval) \<times> event list" where
  "waitForCompletion net taskId category subcategory userId accessToken maxAttempts i tr =
     (if i < maxAttempts then
        (case makeGenVRRequest net ''/status'' (job_body taskId category subcategory) userId accessToken tr of
           (statusData, tr1) \<Rightarrow>
             if \<not> truthy statusData then (Inl (Error ''Failed to get status''), tr1)
             else if status_of statusData = JStr ''completed'' then
               (case makeGenVRRequest net ''/response'' (job_body taskId category subcategory)
                       userId accessToken tr1 of
                  (responseData, tr2) \<Rightarrow> (Inr responseData, tr2))
             else if status_of statusData = JStr ''failed'' then (Inl (task_failed statusData), tr1)
             else waitForCompletion net taskId category subcategory userId accessToken maxAttempts
                    (Suc i) (tr1 @ [Sleep (delay i)]))
      else (Inl (Error ''Task timed out''), tr))"
  by pat_completeness auto
termination
  by (relation "measure (\<lambda>(net, taskId, category, subcategory, userId, accessToken, maxAttempts, i, tr).
        maxAttempts - i)") auto

declare waitForCompletion.simps [simp del]

text \<open>The result of a tool call. An entry of \<open>content\<close> has type \<^verbatim>\<open>"text"\<close>; its text is a
  string, or \<^verbatim>\<open>JSON.stringify(result, null, 2)\<close>, which is kept symbolic.\<close>

datatype rendered = Text string | Pretty_JSON jsval

record tool_result =
  content :: "rendered list"
  structuredContent :: "jsval option"
  isError :: "bool option"

text \<open>The body of the \<^verbatim>\<open>try\<close> in the handler that \<^verbatim>\<open>init\<close> registers for
  \<open>(category, subcategory)\<close>. Reading \<^verbatim>\<open>args.userId\<close> of a nullish \<open>args\<close> throws before
  anything is sent.\<close>

definition handler_try ::
  "remote \<Rightarrow> string \<Rightarrow> string \<Rightarrow> jsval \<Rightarrow> event list \<Rightarrow> (exn + jsval) \<times> event list" where
  "handler_try net category subcategory args tr =
     (let requestBody =
            JObj (obj_assign [(''category'', JStr category), (''subcategory'', JStr subcategory)]
                    (own_props args))
      in if nullish args then (Inl (cannot_read args ''userId''), tr)
         else (case makeGenVRRequest net ''/generate'' requestBody
                      (get_prop args ''userId'') (get_prop args ''accessToken'') tr of
                 (generateData, tr1) \<Rightarrow>
                   let taskId = opt_prop (opt_prop generateData ''data'') ''id''
                   in if \<not> truthy taskId
                      then (Inl (Error ''No task ID returned from generate endpoint''), tr1)
                      else waitForCompletion net taskId category subcategory
                             (get_prop args ''userId'') (get_prop args ''accessToken'') 60 0 tr1))"

definition handler ::
  "remote \<Rightarrow> string \<Rightarrow> string \<Rightarrow> jsval \<Rightarrow> event list \<Rightarrow> tool_result \<times> event list" where
  "handler net category subcategory args tr =
     (case handler_try net category subcategory args tr of
        (Inr result, tr') \<Rightarrow>
          (\<lparr>content = [Pretty_JSON result], structuredContent = Some result, isError = None\<rparr>, tr')
      | (Inl error, tr') \<Rightarrow>
          (\<lparr>content = [Text (''Tool execution failed: '' @ message error)],
            structuredContent = None, isError = Some True\<rparr>, tr'))"

subsection \<open>The dispatch of a call to a registered tool\<close>

text \<open>
  Between a call and the handler stands \<^verbatim>\<open>McpServer\<close> (of the SDK, outside the repository).
  It parses the arguments of the call with \<^verbatim>\<open>z.object(inputSchema)\<close>, the schema that
  \<^verbatim>\<open>init\<close> registered with the tool: every field of the schema must be there with its
  type (\<^verbatim>\<open>z.any()\<close> takes anything, also an absent field), a field that the schema does not
  declare is dropped, and the handler receives the parsed object. A call whose arguments do not
  parse never reaches the handler.
\<close>

fun is_number :: "jsval \<Rightarrow> bool" where
  "is_number (JNum r) = (r \<noteq> ''NaN'')"
| "is_number v = False"

fun is_boolean :: "jsval \<Rightarrow> bool" where
  "is_boolean (JBool b) = True"
| "is_boolean v = False"

fun zod_accepts :: "zod \<Rightarrow> jsval \<Rightarrow> bool" where
  "zod_accepts (ZString d) v = typeof_string v"
| "zod_accepts (ZNumber d) v = is_number v"
| "zod_accepts (ZBoolean d) v = is_boolean v"
| "zod_accepts (ZArrayAny d) v = is_array v"
| "zod_accepts (ZAny d) v = True"

fun zod_parse :: "(string \<times> zod) list \<Rightarrow> props \<Rightarrow> props \<Rightarrow> props option" where
  "zod_parse [] arguments parsed = Some parsed"
| "zod_parse ((key, z) # shape) arguments parsed =
     (if \<not> zod_accepts z (obj_get arguments key) then None
      else zod_parse shape arguments
             (if obj_get arguments key = JUndefined then parsed
              else obj_set key (obj_get arguments key) parsed))"

definition invoke ::
  "remote \<Rightarrow> registration \<Rightarrow> jsval \<Rightarrow> event list \<Rightarrow> (tool_result \<times> event list) option" where
  "invoke net r arguments tr =
     (case arguments of
        JObj kvs \<Rightarrow>
          (case zod_parse (reg_inputSchema r) kvs [] of
             None \<Rightarrow> None
           | Some args \<Rightarrow> Some (handler net (reg_category r) (reg_subcategory r) (JObj args) tr))
      | _ \<Rightarrow> None)"

section \<open>Standalone server\<close>

text \<open>The environment variables. The process exits at start unless the two credentials are
  non-empty.\<close>

record env =
  GENVR_USER_ID :: string
  GENVR_ACCESS_TOKEN :: string
  env_GENVR_API_BASE :: "string option"

definition api_base :: "env \<Rightarrow> string" where
  "api_base e =
     (case env_GENVR_API_BASE e of
        None \<Rightarrow> ''https://api.genvrresearch.com/api/v1''
      | Some s \<Rightarrow> if s = [] then ''https://api.genvrresearch.com/api/v1'' else s)"

definition api_request :: "env \<Rightarrow> string \<Rightarrow> jsval \<Rightarrow> request" where
  "api_request e endpoint body =
     \<lparr>url = api_base e @ endpoint,
      http_method = (if truthy body then ''POST'' else ''GET''),
      authorization = ''Bearer '' @ GENVR_ACCESS_TOKEN e,
      req_body = (if truthy body
                  then Some (JObj (obj_put ''uid'' (JStr (GENVR_USER_ID e)) (obj_assign [] (own_props body))))
                  else None)\<rparr>"

definition api_error :: "response \<Rightarrow> exn" where
  "api_error r =
     Error (''GenVR API error: '' @ show_nat (status r) @ '' '' @ statusText r @ '' - '' @ body_text r)"

text \<open>\<^verbatim>\<open>callGenVRAPI\<close>: nothing is caught; a rejected fetch, a response that is not ok and
  a body that is not JSON are all thrown to the caller.\<close>

fun json_or_throw :: "outcome \<Rightarrow> exn + jsval" where
  "json_or_throw (Fails m) = Inl (Rejected m)"
| "json_or_throw (Responds r) =
     (if \<not> ok r then Inl (api_error r)
      else (case body_json r of Inl m \<Rightarrow> Inl (Rejected m) | Inr v \<Rightarrow> Inr v))"

definition callGenVRAPI ::
  "env \<Rightarrow> remote \<Rightarrow> string \<Rightarrow> jsval \<Rightarrow> event list \<Rightarrow> (exn + jsval) \<times> event list" where
  "callGenVRAPI e net endpoint body tr =
     (let req = api_request e endpoint body
      in (json_or_throw (net (requests_sent tr) req), tr @ [Fetch req]))"

function lite_waitForCompletion ::
  "env \<Rightarrow> remote \<Rightarrow> jsval \<Rightarrow> string \<Rightarrow> string \<Rightarrow> nat \<Rightarrow> nat \<Rightarrow> event list
     \<Rightarrow> (exn + jsval) \<times> event list" where
  "lite_waitForCompletion e net taskId category subcategory maxAttempts i tr =
     (if i < maxAttempts then
        (case callGenVRAPI e net ''/status'' (job_body taskId category subcategory) tr of
           (Inl err, tr1) \<Rightarrow> (Inl err, tr1)
         | (Inr statusData, tr1) \<Rightarrow>
             if nullish statusData then (Inl (cannot_read statusData ''data''), tr1)
             else if status_of statusData = JStr ''completed'' then
               callGenVRAPI e net ''/response'' (job_body taskId category subcategory) tr1
             else if status_of statusData = JStr ''failed'' then (Inl (task_failed statusData), tr1)
             else lite_waitForCompletion e net taskId category subcategory maxAttempts
                    (Suc i) (tr1 @ [Sleep (delay i)]))
      else (Inl (Error ''Task timed out''), tr))"
  by pat_completeness auto
termination
  by (relation "measure (\<lambda>(e, net, taskId, category, subcategory, maxAttempts, i, tr).
        maxAttempts - i)") auto

declare lite_waitForCompletion.simps [simp del]

text \<open>The first part of the \<^verbatim>\<open>try\<close> in the \<^verbatim>\<open>CallToolRequestSchema\<close> handler, up to
  \<open>flatParams\<close>: the category, the subcategory and the parameters that go into the body.\<close>

text \<open>The first unwrapping: the contents of \<^verbatim>\<open>toolArgs.parameters\<close> when that is an object,
  the arguments themselves otherwise.\<close>

definition unwrap_parameters :: "jsval \<Rightarrow> props" where
  "unwrap_parameters toolArgs =
     (if truthy (get_prop toolArgs ''parameters'') \<and> typeof_object (get_prop toolArgs ''parameters'')
      then obj_assign [] (own_props (get_prop toolArgs ''parameters''))
      else obj_assign [] (own_props toolArgs))"

definition route :: "string \<Rightarrow> jsval \<Rightarrow> exn + string \<times> string \<times> props" where
  "route name args =
     (if \<not> truthy args \<or> \<not> typeof_object args then Inl (Error ''No arguments provided'')
      else if \<not> startsWith name ''generate_'' then Inl (Error (''Unknown tool: '' @ name))
      else
        let (category, subcategory0) = parse_tool_name name;
            parameters0 = unwrap_parameters args;
            use_model = (truthy (obj_get parameters0 ''model'')
                         \<and> typeof_string (obj_get parameters0 ''model'') \<and> subcategory0 = []);
            subcategory = (if use_model then text_of (obj_get parameters0 ''model'') else subcategory0);
            parameters1 = (if use_model then obj_delete ''model'' parameters0 else parameters0);
            parameters = obj_delete ''subcategory_genvr'' (obj_delete ''category_genvr'' parameters1);
            flatParams0 = obj_assign [] parameters;
            flatParams =
              (if truthy (obj_get flatParams0 ''parameters'')
                  \<and> typeof_object (obj_get flatParams0 ''parameters'')
               then obj_assign [] (own_props (obj_get flatParams0 ''parameters''))
               else flatParams0)
        in Inr (category, subcategory, flatParams))"

definition call_tool_try ::
  "env \<Rightarrow> remote \<Rightarrow> string \<Rightarrow> jsval \<Rightarrow> event list \<Rightarrow> (exn + jsval) \<times> event list" where
  "call_tool_try e net name args tr =
     (case route name args of
        Inl err \<Rightarrow> (Inl err, tr)
      | Inr (category, subcategory, flatParams) \<Rightarrow>
          let requestBody =
                JObj (obj_assign [(''category'', JStr category), (''subcategory'', JStr subcategory)]
                        flatParams)
          in (case callGenVRAPI e net ''/generate'' requestBody tr of
                (Inl err, tr1) \<Rightarrow> (Inl err, tr1)
              | (Inr generateData, tr1) \<Rightarrow>
                  let taskId = opt_prop (opt_prop generateData ''data'') ''id''
                  in if \<not> truthy taskId
                     then (Inl (Error ''No task ID returned from generate endpoint''), tr1)
                     else lite_waitForCompletion e net taskId category subcategory 60 0 tr1))"

definition call_tool ::
  "env \<Rightarrow> remote \<Rightarrow> string \<Rightarrow> jsval \<Rightarrow> event list \<Rightarrow> tool_result \<times> event list" where
  "call_tool e net name args tr =
     (case call_tool_try e net name args tr of
        (Inr result, tr') \<Rightarrow>
          (\<lparr>content = [Pretty_JSON result], structuredContent = None, isError = None\<rparr>, tr')
      | (Inl error, tr') \<Rightarrow>
          (\<lparr>content = [Text (''Error: '' @ message error)],
            structuredContent = None, isError = Some True\<rparr>, tr'))"


section \<open>Vocabulary of the specification\<close>

text \<open>A status payload is terminal when its status is \<open>completed\<close> or \<open>failed\<close>; with any other
  status, or none, the task is still pending.\<close>

definition pending :: "jsval \<Rightarrow> bool" where
  "pending statusData =
     (status_of statusData \<noteq> JStr ''completed'' \<and> status_of statusData \<noteq> JStr ''failed'')"

text \<open>A request is answered with \<open>v\<close>: the response has a 2xx status and the JSON body \<open>v\<close>.\<close>

fun answers :: "outcome \<Rightarrow> jsval \<Rightarrow> bool" where
  "answers (Fails m) v = False"
| "answers (Responds r) v = (ok r \<and> body_json r = Inr v)"

text \<open>What \<^verbatim>\<open>callGenVRAPI\<close> throws on a transport failure: the rejection of \<^verbatim>\<open>fetch\<close>, or
  the error made from the response that is not ok.\<close>

fun thrown_for :: "outcome \<Rightarrow> exn" where
  "thrown_for (Fails m) = Rejected m"
| "thrown_for (Responds r) = api_error r"

text \<open>The requests of one poll: every status check of a task sends the same request.\<close>

definition status_request :: "jsval \<Rightarrow> string \<Rightarrow> string \<Rightarrow> jsval \<Rightarrow> jsval \<Rightarrow> request" where
  "status_request taskId category subcategory userId accessToken =
     worker_request ''/status'' (job_body taskId category subcategory) userId accessToken"

definition result_request :: "jsval \<Rightarrow> string \<Rightarrow> string \<Rightarrow> jsval \<Rightarrow> jsval \<Rightarrow> request" where
  "result_request taskId category subcategory userId accessToken =
     worker_request ''/response'' (job_body taskId category subcategory) userId accessToken"

definition lite_status_request :: "env \<Rightarrow> jsval \<Rightarrow> string \<Rightarrow> string \<Rightarrow> request" where
  "lite_status_request e taskId category subcategory =
     api_request e ''/status'' (job_body taskId category subcategory)"

definition lite_result_request :: "env \<Rightarrow> jsval \<Rightarrow> string \<Rightarrow> string \<Rightarrow> request" where
  "lite_result_request e taskId category subcategory =
     api_request e ''/response'' (job_body taskId category subcategory)"

text \<open>What a poll does while the task is pending: attempt \<open>k\<close> sends the status request and then
  sleeps \<open>delay k\<close>.\<close>

definition pending_rounds :: "request \<Rightarrow> nat \<Rightarrow> nat \<Rightarrow> event list" where
  "pending_rounds req i n = concat (map (\<lambda>k. [Fetch req, Sleep (delay k)]) [i..<i + n])"

section \<open>Concrete inputs\<close>

text \<open>A remote system that gives the listed outcomes in order, and is unreachable afterwards.\<close>

definition scripted :: "outcome list \<Rightarrow> remote" where
  "scripted outs n req = (if n < length outs then outs ! n else Fails ''network down'')"

definition json_response :: "jsval \<Rightarrow> outcome" where
  "json_response v = Responds \<lparr>status = 200, statusText = ''OK'', body_text = [], body_json = Inr v\<rparr>"

definition server_error :: outcome where
  "server_error =
     Responds \<lparr>status = 500, statusText = ''Internal Server Error'', body_text = ''boom'',
               body_json = Inl ''Unexpected token b in JSON at position 0''\<rparr>"

definition with_status :: "string \<Rightarrow> jsval" where
  "with_status s = JObj [(''data'', JObj [(''status'', JStr s)])]"

definition sample_env :: env where
  "sample_env = \<lparr>GENVR_USER_ID = ''u1'', GENVR_ACCESS_TOKEN = ''tok'', env_GENVR_API_BASE = None\<rparr>"

text \<open>A schema cache in the shape the Worker reads (\<^verbatim>\<open>schema.properties\<close>), with a hidden
  field and a reserved one, and the same schema in the shape the standalone server reads
  (\<^verbatim>\<open>cachedSchema.schema.properties\<close>).\<close>

definition sample_properties :: jsval where
  "sample_properties =
     JObj [(''prompt'', JObj [(''type'', JStr ''string'')]),
           (''seed'', JObj [(''type'', JStr ''number''), (''display'', JStr ''hidden'')]),
           (''token'', JObj [(''type'', JStr ''string'')])]"

definition worker_cache :: jsval where
  "worker_cache = JObj [(''imagegen/flux_dev'', JObj [(''properties'', sample_properties)])]"

definition lite_cache :: jsval where
  "lite_cache =
     JObj [(''imagegen/flux_dev'', JObj [(''schema'', JObj [(''properties'', sample_properties)])])]"

text \<open>Arguments wrapped twice, with the two reserved fields inside.\<close>

definition wrapped_twice :: jsval where
  "wrapped_twice =
     JObj [(''parameters'', JObj [(''parameters'',
        JObj [(''prompt'', JStr ''a cat''), (''category_genvr'', JStr ''imagegen''),
              (''subcategory_genvr'', JStr ''flux_dev'')])])]"

definition image_to_image :: ModelDescriptor where
  "image_to_image = \<lparr>model_category = ''image_to_image'', model_subcategory = ''x'',
                     model_description = JUndefined\<rparr>"

definition flux :: ModelDescriptor where
  "flux = \<lparr>model_category = ''imagegen'', model_subcategory = ''flux_dev'',
           model_description = JUndefined\<rparr>"


definition failed_payload :: jsval where
  "failed_payload = JObj [(''data'', JObj [(''status'', JStr ''failed''), (''error'', JStr ''NSFW content'')])]"

definition always :: "outcome \<Rightarrow> remote" where
  "always out n req = out"

text \<open>A failed task whose error detail is an object.\<close>

definition structured_failure :: jsval where
  "structured_failure =
     JObj [(''data'', JObj [(''status'', JStr ''failed''),
        (''error'', JObj [(''code'', JNum ''429''), (''message'', JStr ''rate limited'')])])]"

text \<open>A remote system that accepts the job and reports it completed, and then answers the
  fetch of the result with an error.\<close>

definition result_lost :: remote where
  "result_lost =
     scripted [json_response (JObj [(''data'', JObj [(''id'', JStr ''t1'')])]),
               json_response (with_status ''completed''), server_error]"

text \<open>A schema cache, in the shape the Worker reads, whose schema declares the prompt alone.\<close>

definition prompt_cache :: jsval where
  "prompt_cache =
     JObj [(''imagegen/flux_dev'',
            JObj [(''properties'', JObj [(''prompt'', JObj [(''type'', JStr ''string'')])])])]"

section \<open>Tool names and their parse\<close>

lemma split_on_not_Nil: "split_on d s \<noteq> []"
  by (induction s) (auto split: list.splits)

lemma split_on_no_sep: "d \<notin> set s \<Longrightarrow> split_on d s = [s]"
  by (induction s) auto

lemma split_on_first: "d \<notin> set c \<Longrightarrow> split_on d (c @ d # s) = c # split_on d s"
  by (induction c) auto

lemma join_split_on: "join_with [d] (split_on d s) = s"
proof (induction s)
  case Nil
  then show ?case by simp
next
  case (Cons c cs)
  obtain p ps where sp: "split_on d cs = p # ps"
    using split_on_not_Nil [of d cs] by (cases "split_on d cs") auto
  show ?case
  proof (cases "c = d")
    case True
    with Cons sp show ?thesis by simp
  next
    case False
    with Cons sp show ?thesis by (cases ps) auto
  qed
qed

lemma remove_first_prefix: "pat \<noteq> [] \<Longrightarrow> remove_first pat (pat @ s) = s"
  by (cases pat) (auto simp: startsWith_def)

lemma expand_category_other:
  "category \<noteq> ''image'' \<Longrightarrow> category \<noteq> ''video'' \<Longrightarrow> category \<noteq> ''audio''
     \<Longrightarrow> expand_category category = category"
  by (simp add: expand_category_def)

lemma parse_generated_name:
  "CHR ''_'' \<notin> set category \<Longrightarrow>
     parse_tool_name (''generate_'' @ category @ ''_'' @ subcategory)
       = (expand_category category, subcategory)"
proof -
  assume c: "CHR ''_'' \<notin> set category"
  have "remove_first ''generate_'' (''generate_'' @ category @ ''_'' @ subcategory)
          = category @ CHR ''_'' # subcategory"
    using remove_first_prefix [of "''generate_''" "category @ ''_'' @ subcategory"] by simp
  moreover have "split_on (CHR ''_'') (category @ CHR ''_'' # subcategory)
          = category # split_on (CHR ''_'') subcategory"
    using c by (rule split_on_first)
  moreover have "join_with ''_'' (split_on (CHR ''_'') subcategory) = subcategory"
    by (rule join_split_on)
  ultimately show ?thesis
    unfolding parse_tool_name_def by simp
qed

lemma split_modelKey_key:
  "CHR ''/'' \<notin> set category \<Longrightarrow> CHR ''/'' \<notin> set subcategory
     \<Longrightarrow> split_modelKey (category @ ''/'' @ subcategory) = (category, subcategory)"
  using split_on_first [of "CHR ''/''" category subcategory]
  by (simp add: split_modelKey_def split_on_no_sep)


lemma generateTools_tools:
  "generateTools schemasCache catalog = Inr tools \<Longrightarrow>
     length tools = length catalog
     \<and> (\<forall>i<length catalog. generate_tool schemasCache (catalog ! i) = Inr (tools ! i))"
proof (induction catalog arbitrary: tools)
  case Nil
  then show ?case by simp
next
  case (Cons m ms)
  from Cons.prems obtain t ts where t: "generate_tool schemasCache m = Inr t"
    and ts: "generateTools schemasCache ms = Inr ts" and tools: "tools = t # ts"
    by (auto split: sum.splits)
  from Cons.IH [OF ts] t tools show ?case
    by (auto simp: nth_Cons split: nat.splits)
qed

lemma generate_tool_name:
  "generate_tool schemasCache m = Inr t \<Longrightarrow>
     tool_name t = ''generate_'' @ model_category m @ ''_'' @ model_subcategory m"
  by (auto simp: generate_tool_def Let_def split: sum.splits)

lemma generateTools_names:
  assumes "generateTools schemasCache catalog = Inr tools"
  shows "map tool_name tools
           = map (\<lambda>m. ''generate_'' @ model_category m @ ''_'' @ model_subcategory m) catalog"
proof (rule nth_equalityI)
  from generateTools_tools [OF assms] show "length (map tool_name tools)
      = length (map (\<lambda>m. ''generate_'' @ model_category m @ ''_'' @ model_subcategory m) catalog)"
    by simp
next
  fix i assume "i < length (map tool_name tools)"
  with generateTools_tools [OF assms]
  have i: "i < length catalog" "i < length tools"
    and "generate_tool schemasCache (catalog ! i) = Inr (tools ! i)"
    by simp_all
  from generate_tool_name [OF this(3)] i show "map tool_name tools ! i
      = map (\<lambda>m. ''generate_'' @ model_category m @ ''_'' @ model_subcategory m) catalog ! i"
    by simp
qed

lemma register_model_name:
  assumes "CHR ''/'' \<notin> set category" and "CHR ''/'' \<notin> set subcategory"
    and "register_model schemasCache (category @ ''/'' @ subcategory) = Inr r"
  shows "reg_name r = ''generate_'' @ category @ ''_'' @ subcategory
           \<and> reg_category r = category \<and> reg_subcategory r = subcategory"
  using assms(3) split_modelKey_key [OF assms(1,2)]
  by (auto simp: register_model_def Let_def split: sum.splits if_splits)

text \<open>When the loop of \<^verbatim>\<open>init\<close> gets through, it has registered one tool for each key, in
  order, under names that are new and pairwise different.\<close>

lemma register_all_regs:
  "register_all schemasCache registered keys = Inr regs \<Longrightarrow>
     length regs = length keys
     \<and> (\<forall>i<length keys. register_model schemasCache (keys ! i) = Inr (regs ! i))
     \<and> distinct (map reg_name regs) \<and> set (map reg_name regs) \<inter> set registered = {}"
proof (induction keys arbitrary: registered regs)
  case Nil
  then show ?case by simp
next
  case (Cons k ks)
  from Cons.prems obtain r rs where r: "register_model schemasCache k = Inr r"
    and new: "reg_name r \<notin> set registered"
    and rs: "register_all schemasCache (reg_name r # registered) ks = Inr rs" and regs: "regs = r # rs"
    by (auto split: sum.splits if_splits)
  from Cons.IH [OF rs] r new regs show ?case
    by (auto simp: nth_Cons split: nat.splits)
qed

lemma parse_round_trip:
  assumes "CHR ''_'' \<notin> set category" and "category \<notin> {''image'', ''video'', ''audio''}"
  shows "parse_tool_name (''generate_'' @ category @ ''_'' @ subcategory) = (category, subcategory)"
  using parse_generated_name [OF assms(1), of subcategory] assms(2)
  by (simp add: expand_category_other)

text \<open>Both builders return when the cache holds no schema, the standalone one for entries without
  a description (\<^verbatim>\<open>fetchAvailableModels\<close> gives them none), the Worker's for a catalog that
  leads to pairwise different tool names.\<close>

lemma generateTools_returns_without_schemas:
  "\<forall>m\<in>set catalog. model_description m = JUndefined \<Longrightarrow>
     \<exists>tools. generateTools (JObj []) catalog = Inr tools"
  by (induction catalog)
     (auto simp: generate_tool_def translate_schema_def Let_def js_or_def opt_prop_def)

lemma register_all_returns_without_schemas:
  fixes name :: "string \<Rightarrow> string"
  defines "name \<equiv> \<lambda>k. ''generate_'' @ fst (split_modelKey k) @ ''_'' @ snd (split_modelKey k)"
  assumes "distinct (map name keys)" and "\<forall>k\<in>set keys. name k \<notin> set registered"
  shows "\<exists>regs. register_all (JObj []) registered keys = Inr regs"
  using assms(2,3)
proof (induction keys arbitrary: registered)
  case Nil
  then show ?case by simp
next
  case (Cons k ks)
  obtain c s where cs: "split_modelKey k = (c, s)" by (cases "split_modelKey k")
  define r where "r = \<lparr>reg_name = ''generate_'' @ c @ ''_'' @ s, reg_inputSchema = fallback_inputSchema,
                       reg_category = c, reg_subcategory = s\<rparr>"
  have r: "register_model (JObj []) k = Inr r" and n: "reg_name r = name k"
    by (simp_all add: register_model_def cs r_def name_def)
  from Cons.prems have "distinct (map name ks)" "\<forall>k'\<in>set ks. name k' \<notin> set (name k # registered)"
    by (force simp: image_iff)+
  from Cons.IH [OF this] obtain rs where "register_all (JObj []) (name k # registered) ks = Inr rs"
    by blast
  with r n Cons.prems(2) show ?case by simp
qed

lemma init_returns_without_schemas:
  assumes "distinct (map (\<lambda>k. ''generate_'' @ fst (split_modelKey k) @ ''_'' @ snd (split_modelKey k))
             (curatedModelKeys catalog))"
  shows "\<exists>regs. init catalog (JObj []) = Inr regs"
  unfolding init_def
  by (rule register_all_returns_without_schemas [OF assms]) simp

text \<open>
  C1 (as amended). Whenever \<^verbatim>\<open>generateTools\<close> returns, it returns one tool for each catalog
  entry, in catalog order, named \<open>generate_<category>_<subcategory>\<close>; for every entry whose
  category contains no underscore and is none of the short forms \<open>image\<close>, \<open>video\<close>, \<open>audio\<close>, the
  router's parse of the name of its tool is the entry's \<open>(category, subcategory)\<close>, whatever the
  other entries are; and the names are pairwise different when every entry is of that kind and
  the entries are pairwise different. Whenever the Worker's \<^verbatim>\<open>init\<close> returns, it has
  registered one tool for each entry, in order, under pairwise different names; for every entry
  whose category and subcategory contain no slash (\<^verbatim>\<open>init\<close> splits the model key at slashes)
  the name is \<open>generate_<category>_<subcategory>\<close>, and its parse is the entry's pair under the
  same condition on the category.
\<close>

theorem tool_name_round_trip:
  "(generateTools schemasCache catalog = Inr tools \<longrightarrow>
      length tools = length catalog
      \<and> (\<forall>i<length catalog.
            tool_name (tools ! i)
              = ''generate_'' @ model_category (catalog ! i) @ ''_'' @ model_subcategory (catalog ! i)
            \<and> (CHR ''_'' \<notin> set (model_category (catalog ! i))
                 \<and> model_category (catalog ! i) \<notin> {''image'', ''video'', ''audio''} \<longrightarrow>
               parse_tool_name (tool_name (tools ! i))
                 = (model_category (catalog ! i), model_subcategory (catalog ! i))))
      \<and> ((\<forall>m\<in>set catalog. CHR ''_'' \<notin> set (model_category m)
                \<and> model_category m \<notin> {''image'', ''video'', ''audio''})
           \<and> distinct (map (\<lambda>m. (model_category m, model_subcategory m)) catalog)
           \<longrightarrow> distinct (map tool_name tools)))
   \<and> (init catalog schemasCache' = Inr regs \<longrightarrow>
      length regs = length catalog \<and> distinct (map reg_name regs)
      \<and> (\<forall>i<length catalog.
            CHR ''/'' \<notin> set (model_category (catalog ! i))
              \<and> CHR ''/'' \<notin> set (model_subcategory (catalog ! i)) \<longrightarrow>
            reg_name (regs ! i)
              = ''generate_'' @ model_category (catalog ! i) @ ''_'' @ model_subcategory (catalog ! i)
            \<and> (CHR ''_'' \<notin> set (model_category (catalog ! i))
                 \<and> model_category (catalog ! i) \<notin> {''image'', ''video'', ''audio''} \<longrightarrow>
               parse_tool_name (reg_name (regs ! i))
                 = (model_category (catalog ! i), model_subcategory (catalog ! i)))))"
proof (intro conjI impI)
  assume t: "generateTools schemasCache catalog = Inr tools"
  note g = generateTools_tools [OF t]
  from g show "length tools = length catalog" by simp
  show "\<forall>i<length catalog.
            tool_name (tools ! i)
              = ''generate_'' @ model_category (catalog ! i) @ ''_'' @ model_subcategory (catalog ! i)
            \<and> (CHR ''_'' \<notin> set (model_category (catalog ! i))
                 \<and> model_category (catalog ! i) \<notin> {''image'', ''video'', ''audio''} \<longrightarrow>
               parse_tool_name (tool_name (tools ! i))
                 = (model_category (catalog ! i), model_subcategory (catalog ! i)))"
  proof (intro allI impI conjI)
    fix i assume i: "i < length catalog"
    with g have "generate_tool schemasCache (catalog ! i) = Inr (tools ! i)" by simp
    then show n: "tool_name (tools ! i)
        = ''generate_'' @ model_category (catalog ! i) @ ''_'' @ model_subcategory (catalog ! i)"
      by (rule generate_tool_name)
    assume "CHR ''_'' \<notin> set (model_category (catalog ! i))
                 \<and> model_category (catalog ! i) \<notin> {''image'', ''video'', ''audio''}"
    then show "parse_tool_name (tool_name (tools ! i))
                 = (model_category (catalog ! i), model_subcategory (catalog ! i))"
      unfolding n by (intro parse_round_trip) simp_all
  qed
  assume d: "(\<forall>m\<in>set catalog. CHR ''_'' \<notin> set (model_category m)
                \<and> model_category m \<notin> {''image'', ''video'', ''audio''})
           \<and> distinct (map (\<lambda>m. (model_category m, model_subcategory m)) catalog)"
  have "parse_tool_name (''generate_'' @ model_category m @ ''_'' @ model_subcategory m)
          = (model_category m, model_subcategory m)" if "m \<in> set catalog" for m
    using d that by (intro parse_round_trip) auto
  then have "map parse_tool_name (map tool_name tools)
          = map (\<lambda>m. (model_category m, model_subcategory m)) catalog"
    unfolding generateTools_names [OF t] map_map comp_def by (intro map_cong refl)
  with d have "distinct (map parse_tool_name (map tool_name tools))" by (simp only:)
  then show "distinct (map tool_name tools)"
    by (rule distinct_map [THEN iffD1, THEN conjunct1])
next
  assume "init catalog schemasCache' = Inr regs"
  then have "register_all schemasCache' [''calculate'', ''add''] (curatedModelKeys catalog) = Inr regs"
    by (simp add: init_def)
  note r = register_all_regs [OF this]
  from r show "length regs = length catalog" by (simp add: curatedModelKeys_def)
  from r show "distinct (map reg_name regs)" by simp
  show "\<forall>i<length catalog.
            CHR ''/'' \<notin> set (model_category (catalog ! i))
              \<and> CHR ''/'' \<notin> set (model_subcategory (catalog ! i)) \<longrightarrow>
            reg_name (regs ! i)
              = ''generate_'' @ model_category (catalog ! i) @ ''_'' @ model_subcategory (catalog ! i)
            \<and> (CHR ''_'' \<notin> set (model_category (catalog ! i))
                 \<and> model_category (catalog ! i) \<notin> {''image'', ''video'', ''audio''} \<longrightarrow>
               parse_tool_name (reg_name (regs ! i))
                 = (model_category (catalog ! i), model_subcategory (catalog ! i)))"
  proof (intro allI impI conjI)
    fix i assume i: "i < length catalog"
      and s: "CHR ''/'' \<notin> set (model_category (catalog ! i))
              \<and> CHR ''/'' \<notin> set (model_subcategory (catalog ! i))"
    from i r have "register_model schemasCache'
        (model_category (catalog ! i) @ ''/'' @ model_subcategory (catalog ! i)) = Inr (regs ! i)"
      by (simp add: curatedModelKeys_def)
    from register_model_name [OF s [THEN conjunct1] s [THEN conjunct2] this]
    show n: "reg_name (regs ! i)
        = ''generate_'' @ model_category (catalog ! i) @ ''_'' @ model_subcategory (catalog ! i)"
      by (rule conjunct1)
    assume "CHR ''_'' \<notin> set (model_category (catalog ! i))
                 \<and> model_category (catalog ! i) \<notin> {''image'', ''video'', ''audio''}"
    then show "parse_tool_name (reg_name (regs ! i))
                 = (model_category (catalog ! i), model_subcategory (catalog ! i))"
      unfolding n by (intro parse_round_trip) simp_all
  qed
qed

text \<open>A catalog with an entry that does not survive the round trip, \<open>(image_to_image, x)\<close>, and
  one that does.\<close>

theorem tool_name_round_trip_witness:
  "(1::nat) < length [image_to_image, flux]
   \<and> CHR ''_'' \<notin> set (model_category ([image_to_image, flux] ! 1))
   \<and> model_category ([image_to_image, flux] ! 1) \<notin> {''image'', ''video'', ''audio''}
   \<and> CHR ''/'' \<notin> set (model_category ([image_to_image, flux] ! 1))
   \<and> CHR ''/'' \<notin> set (model_subcategory ([image_to_image, flux] ! 1))
   \<and> parse_tool_name (tool_name (projr (generateTools (JObj []) [image_to_image, flux]) ! 1))
       = (''imagegen'', ''flux_dev'')
   \<and> parse_tool_name (reg_name (projr (init [image_to_image, flux] (JObj [])) ! 1))
       = (''imagegen'', ''flux_dev'')"
proof -
  obtain tools where t: "generateTools (JObj []) [image_to_image, flux] = Inr tools"
    using generateTools_returns_without_schemas [of "[image_to_image, flux]"]
    by (auto simp: image_to_image_def flux_def)
  obtain regs where r: "init [image_to_image, flux] (JObj []) = Inr regs"
    using init_returns_without_schemas [of "[image_to_image, flux]"]
    by (auto simp: image_to_image_def flux_def curatedModelKeys_def split_modelKey_def)
  have h: "(1::nat) < length [image_to_image, flux]"
    "CHR ''_'' \<notin> set (model_category ([image_to_image, flux] ! 1))
       \<and> model_category ([image_to_image, flux] ! 1) \<notin> {''image'', ''video'', ''audio''}"
    "CHR ''/'' \<notin> set (model_category ([image_to_image, flux] ! 1))
       \<and> CHR ''/'' \<notin> set (model_subcategory ([image_to_image, flux] ! 1))"
    by (simp_all add: flux_def)
  note th = tool_name_round_trip [of "JObj []" "[image_to_image, flux]" tools "JObj []" regs]
  from th [THEN conjunct1, THEN mp, OF t, THEN conjunct2, THEN conjunct1, rule_format, OF h(1)] h(2)
  have 1: "parse_tool_name (tool_name (tools ! 1)) = (''imagegen'', ''flux_dev'')"
    by (auto simp: flux_def)
  from th [THEN conjunct2, THEN mp, OF r, THEN conjunct2, THEN conjunct2, rule_format, OF h(1)] h(2,3)
  have 2: "parse_tool_name (reg_name (regs ! 1)) = (''imagegen'', ''flux_dev'')"
    by (auto simp: flux_def)
  from 1 2 t r h show ?thesis by simp
qed

text \<open>The claim as stated fails at the catalog entry \<open>(image, flux)\<close>: both builders name its tool
  \<open>generate_image_flux\<close>, and the router parses that name to \<open>(imagegen, flux)\<close>.\<close>

theorem round_trip_counterexample:
  "map_sum id (map tool_name)
     (generateTools (JObj [])
        [\<lparr>model_category = ''image'', model_subcategory = ''flux'', model_description = JUndefined\<rparr>])
     = Inr [''generate_image_flux'']
   \<and> map_sum id (map reg_name)
     (init [\<lparr>model_category = ''image'', model_subcategory = ''flux'', model_description = JUndefined\<rparr>]
        (JObj []))
     = Inr [''generate_image_flux'']
   \<and> parse_tool_name ''generate_image_flux'' = (''imagegen'', ''flux'')
   \<and> parse_tool_name ''generate_image_flux'' \<noteq> (''image'', ''flux'')"
  by (simp add: generate_tool_def translate_schema_def make_inputSchema_def Let_def js_or_def opt_prop_def
        init_def curatedModelKeys_def register_model_def split_modelKey_def
        parse_tool_name_def startsWith_def expand_category_def)

section \<open>Objects built by assignment\<close>

lemma array_index_name: "k \<noteq> [] \<Longrightarrow> hd k \<notin> set ''0123456789'' \<Longrightarrow> array_index k = None"
  by (cases k) (simp_all add: array_index_def)

lemma obj_insert_name: "array_index k = None \<Longrightarrow> obj_insert k v kvs = kvs @ [(k, v)]"
  by (induction kvs) (auto simp: comes_before_def)

lemma obj_insert_keys: "fst ` set (obj_insert k v kvs) = insert k (fst ` set kvs)"
  by (induction kvs) force+

lemma obj_insert_distinct:
  "distinct (map fst kvs) \<Longrightarrow> k \<notin> fst ` set kvs \<Longrightarrow> distinct (map fst (obj_insert k v kvs))"
proof (induction kvs)
  case Nil
  then show ?case by simp
next
  case (Cons kv kvs)
  obtain k' v' where kv: "kv = (k', v')" by (cases kv)
  from Cons.prems kv have "k' \<notin> fst ` set (obj_insert k v kvs)"
    by (auto simp: obj_insert_keys)
  with Cons kv show ?case
    by (auto simp: image_iff)
qed

lemma obj_insert_mem: "(k, v) \<in> set (obj_insert k v kvs)"
  by (induction kvs) auto

lemma obj_insert_other: "(k', v') \<in> set kvs \<Longrightarrow> (k', v') \<in> set (obj_insert k v kvs)"
  by (induction kvs) auto

lemma replace_keys: "map (fst \<circ> (\<lambda>kv. if fst kv = k then (k, v) else kv)) kvs = map fst kvs"
  by (induction kvs) auto

lemma obj_put_keys: "fst ` set (obj_put k v kvs) = insert k (fst ` set kvs)"
proof (cases "k \<in> fst ` set kvs")
  case True
  have "map fst (map (\<lambda>kv. if fst kv = k then (k, v) else kv) kvs) = map fst kvs"
    by (induction kvs) auto
  then have "fst ` set (map (\<lambda>kv. if fst kv = k then (k, v) else kv) kvs) = fst ` set kvs"
    by (metis set_map)
  with True show ?thesis by (auto simp: obj_put_def)
next
  case False
  then show ?thesis by (simp add: obj_put_def obj_insert_keys)
qed

lemma obj_put_distinct: "distinct (map fst kvs) \<Longrightarrow> distinct (map fst (obj_put k v kvs))"
  by (simp add: obj_put_def obj_insert_distinct replace_keys)

lemma obj_put_mem: "(k, v) \<in> set (obj_put k v kvs)"
proof (cases "k \<in> fst ` set kvs")
  case True
  then obtain v' where "(k, v') \<in> set kvs" by auto
  then have "(k, v) \<in> (\<lambda>kv. if fst kv = k then (k, v) else kv) ` set kvs"
    by (force simp: image_iff)
  with True show ?thesis by (simp add: obj_put_def)
next
  case False
  then show ?thesis by (simp add: obj_put_def obj_insert_mem)
qed

lemma obj_put_other: "k' \<noteq> k \<Longrightarrow> (k', v') \<in> set kvs \<Longrightarrow> (k', v') \<in> set (obj_put k v kvs)"
  by (force simp: obj_put_def obj_insert_other image_iff)

lemma obj_put_name:
  "array_index k = None \<Longrightarrow> k \<notin> fst ` set kvs \<Longrightarrow> obj_put k v kvs = kvs @ [(k, v)]"
  by (simp add: obj_put_def obj_insert_name)

lemma obj_set_keys:
  "fst ` set (obj_set k v kvs) = (if k = ''__proto__'' then fst ` set kvs else insert k (fst ` set kvs))"
  by (simp add: obj_set_def obj_put_keys)

lemma obj_get_mem: "distinct (map fst kvs) \<Longrightarrow> (k, v) \<in> set kvs \<Longrightarrow> obj_get kvs k = v"
  by (induction kvs) force+

lemma obj_get_absent: "k \<notin> fst ` set kvs \<Longrightarrow> obj_get kvs k = JUndefined"
  by (induction kvs) auto

lemma obj_delete_keys: "fst ` set (obj_delete k kvs) = fst ` set kvs - {k}"
  by (auto simp: obj_delete_def image_iff)

lemma obj_assign_keeps:
  "k \<notin> fst ` set src \<Longrightarrow> (k, v) \<in> set target \<Longrightarrow> (k, v) \<in> set (obj_assign target src)"
  by (induction src arbitrary: target) (auto simp: obj_put_other)

lemma obj_assign_mem:
  "distinct (map fst src) \<Longrightarrow> (k, v) \<in> set src \<Longrightarrow> (k, v) \<in> set (obj_assign target src)"
proof (induction src arbitrary: target)
  case Nil
  then show ?case by simp
next
  case (Cons kv src)
  obtain k' v' where kv: "kv = (k', v')" by (cases kv)
  show ?case
  proof (cases "(k, v) = kv")
    case True
    with Cons.prems kv have "k \<notin> fst ` set src" by auto
    with True kv show ?thesis by (auto intro: obj_assign_keeps obj_put_mem)
  next
    case False
    with Cons kv show ?thesis by auto
  qed
qed

lemma obj_assign_distinct:
  "distinct (map fst target) \<Longrightarrow> distinct (map fst (obj_assign target src))"
  by (induction src arbitrary: target) (auto simp: obj_put_distinct)

lemma obj_assign_keys: "fst ` set (obj_assign target src) = fst ` set target \<union> fst ` set src"
proof (induction src arbitrary: target)
  case Nil
  then show ?case by simp
next
  case (Cons kv src)
  obtain k v where kv: "kv = (k, v)" by (cases kv)
  have "fst ` set (obj_assign target (kv # src)) = fst ` set (obj_assign (obj_put k v target) src)"
    by (simp add: kv)
  also have "\<dots> = fst ` set (obj_put k v target) \<union> fst ` set src"
    by (rule Cons.IH)
  also have "\<dots> = fst ` set target \<union> fst ` set (kv # src)"
    by (simp add: obj_put_keys kv)
  finally show ?case .
qed

text \<open>The bodies of the requests of a poll.\<close>

lemma job_body_uid:
  "obj_put ''uid'' u (obj_assign [] (own_props (job_body taskId category subcategory)))
     = [(''id'', taskId), (''category'', JStr category), (''subcategory'', JStr subcategory), (''uid'', u)]"
  by (simp add: job_body_def obj_put_name array_index_name)

section \<open>The completion poller\<close>

subsection \<open>Traces\<close>

lemma requests_sent_Nil: "requests_sent [] = 0"
  by (simp add: requests_sent_def)

lemma requests_sent_append: "requests_sent (tr @ tr') = requests_sent tr + requests_sent tr'"
  by (simp add: requests_sent_def)

lemma requests_sent_Cons:
  "requests_sent (Fetch r # tr) = Suc (requests_sent tr)" "requests_sent (Sleep d # tr) = requests_sent tr"
  by (simp_all add: requests_sent_def)

lemmas requests_sent_simps = requests_sent_Nil requests_sent_append requests_sent_Cons

lemma pending_rounds_0: "pending_rounds req i 0 = []"
  by (simp add: pending_rounds_def)

lemma pending_rounds_Suc:
  "pending_rounds req i (Suc n) = [Fetch req, Sleep (delay i)] @ pending_rounds req (Suc i) n"
  by (simp add: pending_rounds_def upt_rec [of i])

lemma requests_sent_pending_rounds: "requests_sent (pending_rounds req i n) = n"
  by (induction n arbitrary: i) (simp_all add: pending_rounds_0 pending_rounds_Suc requests_sent_simps)

lemma fetch_in_pending_rounds: "Fetch r \<in> set (pending_rounds req i n) \<Longrightarrow> r = req"
  by (induction n arbitrary: i) (auto simp: pending_rounds_0 pending_rounds_Suc)

text \<open>A payload with a status is an object.\<close>

lemma status_is_object: "status_of sd = JStr s \<Longrightarrow> truthy sd \<and> \<not> nullish sd"
  by (cases sd) (simp_all add: status_of_def opt_prop_def js_or_def)

subsection \<open>One iteration of the Worker's poll\<close>

lemma job_body_truthy: "truthy (job_body taskId category subcategory)"
  by (simp add: job_body_def)

lemma wfc_status_lost:
  assumes "i < maxAttempts"
    and "\<not> truthy (json_or_null (net (requests_sent tr)
            (status_request taskId category subcategory userId accessToken)))"
  shows "waitForCompletion net taskId category subcategory userId accessToken maxAttempts i tr
           = (Inl (Error ''Failed to get status''),
              tr @ [Fetch (status_request taskId category subcategory userId accessToken)])"
  using assms
  by (subst waitForCompletion.simps) (simp add: Let_def makeGenVRRequest_def job_body_truthy status_request_def)

lemma wfc_completed:
  assumes "i < maxAttempts"
    and "truthy (json_or_null (net (requests_sent tr)
            (status_request taskId category subcategory userId accessToken)))"
    and "status_of (json_or_null (net (requests_sent tr)
            (status_request taskId category subcategory userId accessToken))) = JStr ''completed''"
  shows "waitForCompletion net taskId category subcategory userId accessToken maxAttempts i tr
           = (Inr (json_or_null (net (Suc (requests_sent tr))
                      (result_request taskId category subcategory userId accessToken))),
              tr @ [Fetch (status_request taskId category subcategory userId accessToken),
                    Fetch (result_request taskId category subcategory userId accessToken)])"
  using assms
  by (subst waitForCompletion.simps)
     (simp add: Let_def makeGenVRRequest_def job_body_truthy status_request_def result_request_def requests_sent_simps)

lemma wfc_failed:
  assumes "i < maxAttempts"
    and "truthy (json_or_null (net (requests_sent tr)
            (status_request taskId category subcategory userId accessToken)))"
    and "status_of (json_or_null (net (requests_sent tr)
            (status_request taskId category subcategory userId accessToken))) = JStr ''failed''"
  shows "waitForCompletion net taskId category subcategory userId accessToken maxAttempts i tr
           = (Inl (task_failed (json_or_null (net (requests_sent tr)
                      (status_request taskId category subcategory userId accessToken)))),
              tr @ [Fetch (status_request taskId category subcategory userId accessToken)])"
  using assms
  by (subst waitForCompletion.simps) (simp add: Let_def makeGenVRRequest_def job_body_truthy status_request_def)

lemma wfc_pending:
  assumes "i < maxAttempts"
    and "truthy (json_or_null (net (requests_sent tr)
            (status_request taskId category subcategory userId accessToken)))"
    and "pending (json_or_null (net (requests_sent tr)
            (status_request taskId category subcategory userId accessToken)))"
  shows "waitForCompletion net taskId category subcategory userId accessToken maxAttempts i tr
           = waitForCompletion net taskId category subcategory userId accessToken maxAttempts (Suc i)
               (tr @ [Fetch (status_request taskId category subcategory userId accessToken),
                      Sleep (delay i)])"
  using assms
  by (subst waitForCompletion.simps) (simp add: Let_def makeGenVRRequest_def job_body_truthy status_request_def pending_def)

lemma wfc_exhausted:
  "\<not> i < maxAttempts \<Longrightarrow>
     waitForCompletion net taskId category subcategory userId accessToken maxAttempts i tr
       = (Inl (Error ''Task timed out''), tr)"
  by (subst waitForCompletion.simps) simp

lemma wfc_pending_rounds:
  assumes "\<forall>k<n. truthy (json_or_null (net (requests_sent tr + k)
              (status_request taskId category subcategory userId accessToken)))
            \<and> pending (json_or_null (net (requests_sent tr + k)
              (status_request taskId category subcategory userId accessToken)))"
    and "i + n \<le> maxAttempts"
  shows "waitForCompletion net taskId category subcategory userId accessToken maxAttempts i tr
           = waitForCompletion net taskId category subcategory userId accessToken maxAttempts (i + n)
               (tr @ pending_rounds (status_request taskId category subcategory userId accessToken) i n)"
  using assms
proof (induction n arbitrary: i tr)
  case 0
  then show ?case by (simp add: pending_rounds_0)
next
  case (Suc n)
  let ?req = "status_request taskId category subcategory userId accessToken"
  let ?tr = "tr @ [Fetch ?req, Sleep (delay i)]"
  from Suc.prems(1) have now: "truthy (json_or_null (net (requests_sent tr) ?req))"
    "pending (json_or_null (net (requests_sent tr) ?req))"
    by (metis add.right_neutral zero_less_Suc)+
  have later: "\<forall>k<n. truthy (json_or_null (net (requests_sent ?tr + k) ?req))
            \<and> pending (json_or_null (net (requests_sent ?tr + k) ?req))"
  proof (intro allI impI)
    fix k assume "k < n"
    then have "Suc k < Suc n" by simp
    from Suc.prems(1) [rule_format, OF this]
    show "truthy (json_or_null (net (requests_sent ?tr + k) ?req))
            \<and> pending (json_or_null (net (requests_sent ?tr + k) ?req))"
      by (simp add: requests_sent_simps)
  qed
  from Suc.prems(2) have i: "i < maxAttempts" and le: "Suc i + n \<le> maxAttempts" by simp_all
  show ?case
    using wfc_pending [where net = net and tr = tr, OF i now] Suc.IH [OF later le]
    by (simp add: pending_rounds_Suc)
qed


subsection \<open>One iteration of the standalone server's poll\<close>

lemma lite_status_thrown:
  assumes "i < maxAttempts"
    and "json_or_throw (net (requests_sent tr) (lite_status_request e taskId category subcategory)) = Inl err"
  shows "lite_waitForCompletion e net taskId category subcategory maxAttempts i tr
           = (Inl err, tr @ [Fetch (lite_status_request e taskId category subcategory)])"
  using assms
  by (subst lite_waitForCompletion.simps) (simp add: Let_def callGenVRAPI_def lite_status_request_def)

lemma lite_status_null:
  assumes "i < maxAttempts"
    and "json_or_throw (net (requests_sent tr) (lite_status_request e taskId category subcategory)) = Inr sd"
    and "nullish sd"
  shows "lite_waitForCompletion e net taskId category subcategory maxAttempts i tr
           = (Inl (cannot_read sd ''data''), tr @ [Fetch (lite_status_request e taskId category subcategory)])"
  using assms
  by (subst lite_waitForCompletion.simps) (simp add: Let_def callGenVRAPI_def lite_status_request_def)

lemma lite_completed:
  assumes "i < maxAttempts"
    and "json_or_throw (net (requests_sent tr) (lite_status_request e taskId category subcategory)) = Inr sd"
    and "\<not> nullish sd" and "status_of sd = JStr ''completed''"
  shows "lite_waitForCompletion e net taskId category subcategory maxAttempts i tr
           = (json_or_throw (net (Suc (requests_sent tr)) (lite_result_request e taskId category subcategory)),
              tr @ [Fetch (lite_status_request e taskId category subcategory),
                    Fetch (lite_result_request e taskId category subcategory)])"
  using assms
  by (subst lite_waitForCompletion.simps)
     (simp add: Let_def callGenVRAPI_def lite_status_request_def lite_result_request_def requests_sent_simps)

lemma lite_failed:
  assumes "i < maxAttempts"
    and "json_or_throw (net (requests_sent tr) (lite_status_request e taskId category subcategory)) = Inr sd"
    and "\<not> nullish sd" and "status_of sd = JStr ''failed''"
  shows "lite_waitForCompletion e net taskId category subcategory maxAttempts i tr
           = (Inl (task_failed sd), tr @ [Fetch (lite_status_request e taskId category subcategory)])"
  using assms
  by (subst lite_waitForCompletion.simps) (simp add: Let_def callGenVRAPI_def lite_status_request_def)

lemma lite_pending:
  assumes "i < maxAttempts"
    and "json_or_throw (net (requests_sent tr) (lite_status_request e taskId category subcategory)) = Inr sd"
    and "\<not> nullish sd" and "pending sd"
  shows "lite_waitForCompletion e net taskId category subcategory maxAttempts i tr
           = lite_waitForCompletion e net taskId category subcategory maxAttempts (Suc i)
               (tr @ [Fetch (lite_status_request e taskId category subcategory), Sleep (delay i)])"
  using assms
  by (subst lite_waitForCompletion.simps)
     (simp add: Let_def callGenVRAPI_def lite_status_request_def pending_def)

lemma lite_exhausted:
  "\<not> i < maxAttempts \<Longrightarrow>
     lite_waitForCompletion e net taskId category subcategory maxAttempts i tr
       = (Inl (Error ''Task timed out''), tr)"
  by (subst lite_waitForCompletion.simps) simp

lemma answers_json_or_null: "answers out v \<Longrightarrow> json_or_null out = v"
  by (cases out) auto

lemma answers_json_or_throw: "answers out v \<Longrightarrow> json_or_throw out = Inr v"
  by (cases out) auto

lemma failure_json_or_null: "transport_failure out \<Longrightarrow> json_or_null out = JNull"
  by (cases out) auto

lemma failure_json_or_throw: "transport_failure out \<Longrightarrow> json_or_throw out = Inl (thrown_for out)"
  by (cases out) auto

lemma lite_pending_rounds:
  assumes "\<forall>k<n. \<exists>sd. answers (net (requests_sent tr + k) (lite_status_request e taskId category subcategory)) sd
              \<and> \<not> nullish sd \<and> pending sd"
    and "i + n \<le> maxAttempts"
  shows "lite_waitForCompletion e net taskId category subcategory maxAttempts i tr
           = lite_waitForCompletion e net taskId category subcategory maxAttempts (i + n)
               (tr @ pending_rounds (lite_status_request e taskId category subcategory) i n)"
  using assms
proof (induction n arbitrary: i tr)
  case 0
  then show ?case by (simp add: pending_rounds_0)
next
  case (Suc n)
  let ?req = "lite_status_request e taskId category subcategory"
  let ?tr = "tr @ [Fetch ?req, Sleep (delay i)]"
  from Suc.prems(1) [rule_format, of 0] obtain sd
    where now: "json_or_throw (net (requests_sent tr) ?req) = Inr sd" "\<not> nullish sd" "pending sd"
    by (auto dest: answers_json_or_throw)
  have later: "\<forall>k<n. \<exists>sd. answers (net (requests_sent ?tr + k) ?req) sd \<and> \<not> nullish sd \<and> pending sd"
  proof (intro allI impI)
    fix k assume "k < n"
    then have "Suc k < Suc n" by simp
    from Suc.prems(1) [rule_format, OF this]
    show "\<exists>sd. answers (net (requests_sent ?tr + k) ?req) sd \<and> \<not> nullish sd \<and> pending sd"
      by (simp add: requests_sent_simps)
  qed
  from Suc.prems(2) have i: "i < maxAttempts" and le: "Suc i + n \<le> maxAttempts" by simp_all
  show ?case
    using lite_pending [where net = net and tr = tr, OF i now] Suc.IH [OF later le]
    by (simp add: pending_rounds_Suc)
qed


subsection \<open>Delays, and the run with two pending checks\<close>

lemma total_sleep_simps:
  "total_sleep [] = 0" "total_sleep (Fetch r # tr) = total_sleep tr"
  "total_sleep (Sleep d # tr) = d + total_sleep tr"
  "total_sleep (tr @ tr') = total_sleep tr + total_sleep tr'"
  by (simp_all add: total_sleep_def)


lemma delay_capped: "4 \<le> i \<Longrightarrow> delay i = 10000"
proof -
  assume "4 \<le> i"
  then have "(3 / 2 :: real) ^ 4 \<le> (3 / 2) ^ i" by (intro power_increasing) simp_all
  moreover have "(3 / 2 :: real) ^ 4 = 81 / 16" by (simp add: power4_eq_xxxx)
  ultimately have "(81 / 16 :: real) \<le> (3 / 2) ^ i" by simp
  then have "(10000::real) \<le> 2000 * (3 / 2) ^ i" by linarith
  then show ?thesis by (simp add: delay_def)
qed




subsection \<open>Backoff\<close>

lemma with_status_facts:
  "truthy (with_status s)" "\<not> nullish (with_status s)" "status_of (with_status s) = (if s = [] then JUndefined else JStr s)"
  by (simp_all add: with_status_def status_of_def opt_prop_def js_or_def)

lemma answers_json_response: "answers (json_response v) v' = (v = v')"
  by (auto simp: json_response_def ok_def)




subsection \<open>Terminal observations\<close>

text \<open>The requests of a poll, written out.\<close>

lemma status_request_explicit:
  "status_request taskId category subcategory userId accessToken
     = \<lparr>url = ''https://api.genvrresearch.com/api/v1/status'', http_method = ''POST'',
        authorization = ''Bearer '' @ text_of accessToken,
        req_body = Some (JObj [(''id'', taskId), (''category'', JStr category),
                               (''subcategory'', JStr subcategory), (''uid'', userId)])\<rparr>"
  by (simp add: status_request_def worker_request_def GENVR_API_BASE_def job_body_truthy job_body_uid)

lemma result_request_explicit:
  "result_request taskId category subcategory userId accessToken
     = \<lparr>url = ''https://api.genvrresearch.com/api/v1/response'', http_method = ''POST'',
        authorization = ''Bearer '' @ text_of accessToken,
        req_body = Some (JObj [(''id'', taskId), (''category'', JStr category),
                               (''subcategory'', JStr subcategory), (''uid'', userId)])\<rparr>"
  by (simp add: result_request_def worker_request_def GENVR_API_BASE_def job_body_truthy job_body_uid)

lemma lite_status_request_explicit:
  "lite_status_request e taskId category subcategory
     = \<lparr>url = api_base e @ ''/status'', http_method = ''POST'',
        authorization = ''Bearer '' @ GENVR_ACCESS_TOKEN e,
        req_body = Some (JObj [(''id'', taskId), (''category'', JStr category),
                               (''subcategory'', JStr subcategory),
                               (''uid'', JStr (GENVR_USER_ID e))])\<rparr>"
  by (simp add: lite_status_request_def api_request_def job_body_truthy job_body_uid)

lemma lite_result_request_explicit:
  "lite_result_request e taskId category subcategory
     = \<lparr>url = api_base e @ ''/response'', http_method = ''POST'',
        authorization = ''Bearer '' @ GENVR_ACCESS_TOKEN e,
        req_body = Some (JObj [(''id'', taskId), (''category'', JStr category),
                               (''subcategory'', JStr subcategory),
                               (''uid'', JStr (GENVR_USER_ID e))])\<rparr>"
  by (simp add: lite_result_request_def api_request_def job_body_truthy job_body_uid)

text \<open>
  C6. In both pollers, when the status check of an attempt (the POST to \<open>/status\<close>) is answered
  with a payload whose status (\<^verbatim>\<open>data.status\<close>, else \<^verbatim>\<open>status\<close>) is \<open>completed\<close>, the poll
  sends exactly one more request and ends: the trace grows by the status request and by one POST
  to \<open>/response\<close> for the same task, and by nothing else (no sleep, no further status check).
  When that request is answered with \<open>v\<close>, the poll returns \<open>v\<close>.
\<close>

theorem completed_fetches_once:
  "(i < maxAttempts
      \<and> answers (net (requests_sent tr)
           \<lparr>url = ''https://api.genvrresearch.com/api/v1/status'', http_method = ''POST'',
            authorization = ''Bearer '' @ text_of accessToken,
            req_body = Some (JObj [(''id'', taskId), (''category'', JStr category),
                                   (''subcategory'', JStr subcategory), (''uid'', userId)])\<rparr>) sd
      \<and> status_of sd = JStr ''completed'' \<longrightarrow>
    snd (waitForCompletion net taskId category subcategory userId accessToken maxAttempts i tr)
      = tr @ [Fetch \<lparr>url = ''https://api.genvrresearch.com/api/v1/status'', http_method = ''POST'',
                     authorization = ''Bearer '' @ text_of accessToken,
                     req_body = Some (JObj [(''id'', taskId), (''category'', JStr category),
                                            (''subcategory'', JStr subcategory), (''uid'', userId)])\<rparr>,
              Fetch \<lparr>url = ''https://api.genvrresearch.com/api/v1/response'', http_method = ''POST'',
                     authorization = ''Bearer '' @ text_of accessToken,
                     req_body = Some (JObj [(''id'', taskId), (''category'', JStr category),
                                            (''subcategory'', JStr subcategory), (''uid'', userId)])\<rparr>]
    \<and> (answers (net (Suc (requests_sent tr))
           \<lparr>url = ''https://api.genvrresearch.com/api/v1/response'', http_method = ''POST'',
            authorization = ''Bearer '' @ text_of accessToken,
            req_body = Some (JObj [(''id'', taskId), (''category'', JStr category),
                                   (''subcategory'', JStr subcategory), (''uid'', userId)])\<rparr>) v \<longrightarrow>
        fst (waitForCompletion net taskId category subcategory userId accessToken maxAttempts i tr)
          = Inr v))
   \<and> (i < maxAttempts
      \<and> answers (net (requests_sent tr)
           \<lparr>url = api_base e @ ''/status'', http_method = ''POST'',
            authorization = ''Bearer '' @ GENVR_ACCESS_TOKEN e,
            req_body = Some (JObj [(''id'', taskId), (''category'', JStr category),
                                   (''subcategory'', JStr subcategory),
                                   (''uid'', JStr (GENVR_USER_ID e))])\<rparr>) sd
      \<and> status_of sd = JStr ''completed'' \<longrightarrow>
    snd (lite_waitForCompletion e net taskId category subcategory maxAttempts i tr)
      = tr @ [Fetch \<lparr>url = api_base e @ ''/status'', http_method = ''POST'',
                     authorization = ''Bearer '' @ GENVR_ACCESS_TOKEN e,
                     req_body = Some (JObj [(''id'', taskId), (''category'', JStr category),
                                            (''subcategory'', JStr subcategory),
                                            (''uid'', JStr (GENVR_USER_ID e))])\<rparr>,
              Fetch \<lparr>url = api_base e @ ''/response'', http_method = ''POST'',
                     authorization = ''Bearer '' @ GENVR_ACCESS_TOKEN e,
                     req_body = Some (JObj [(''id'', taskId), (''category'', JStr category),
                                            (''subcategory'', JStr subcategory),
                                            (''uid'', JStr (GENVR_USER_ID e))])\<rparr>]
    \<and> (answers (net (Suc (requests_sent tr))
           \<lparr>url = api_base e @ ''/response'', http_method = ''POST'',
            authorization = ''Bearer '' @ GENVR_ACCESS_TOKEN e,
            req_body = Some (JObj [(''id'', taskId), (''category'', JStr category),
                                   (''subcategory'', JStr subcategory),
                                   (''uid'', JStr (GENVR_USER_ID e))])\<rparr>) v \<longrightarrow>
        fst (lite_waitForCompletion e net taskId category subcategory maxAttempts i tr) = Inr v))"
  unfolding status_request_explicit [symmetric] result_request_explicit [symmetric]
    lite_status_request_explicit [symmetric] lite_result_request_explicit [symmetric]
proof (intro conjI impI)
  assume h: "i < maxAttempts
      \<and> answers (net (requests_sent tr) (status_request taskId category subcategory userId accessToken)) sd
      \<and> status_of sd = JStr ''completed''"
  then have ts: "truthy sd" by (simp add: status_is_object)
  from h have sd: "json_or_null (net (requests_sent tr)
      (status_request taskId category subcategory userId accessToken)) = sd"
    by (simp add: answers_json_or_null)
  from h have i: "i < maxAttempts" by simp
  from ts sd have t: "truthy (json_or_null (net (requests_sent tr)
      (status_request taskId category subcategory userId accessToken)))" by simp
  from h sd have c: "status_of (json_or_null (net (requests_sent tr)
      (status_request taskId category subcategory userId accessToken))) = JStr ''completed''" by simp
  note run = wfc_completed [where net = net and tr = tr, OF i t c]
  from run
  show "snd (waitForCompletion net taskId category subcategory userId accessToken maxAttempts i tr)
      = tr @ [Fetch (status_request taskId category subcategory userId accessToken),
              Fetch (result_request taskId category subcategory userId accessToken)]"
    by simp
  assume "answers (net (Suc (requests_sent tr))
            (result_request taskId category subcategory userId accessToken)) v"
  with run
  show "fst (waitForCompletion net taskId category subcategory userId accessToken maxAttempts i tr)
          = Inr v"
    by (simp add: answers_json_or_null)
next
  assume h: "i < maxAttempts
      \<and> answers (net (requests_sent tr) (lite_status_request e taskId category subcategory)) sd
      \<and> status_of sd = JStr ''completed''"
  then have sd: "json_or_throw (net (requests_sent tr) (lite_status_request e taskId category subcategory))
      = Inr sd"
    by (simp add: answers_json_or_throw)
  from h have i: "i < maxAttempts" and n: "\<not> nullish sd" and c: "status_of sd = JStr ''completed''"
    by (simp_all add: status_is_object)
  note run = lite_completed [where net = net and tr = tr, OF i sd n c]
  from run
  show "snd (lite_waitForCompletion e net taskId category subcategory maxAttempts i tr)
      = tr @ [Fetch (lite_status_request e taskId category subcategory),
              Fetch (lite_result_request e taskId category subcategory)]"
    by simp
  assume "answers (net (Suc (requests_sent tr)) (lite_result_request e taskId category subcategory)) v"
  with run
  show "fst (lite_waitForCompletion e net taskId category subcategory maxAttempts i tr) = Inr v"
    by (simp add: answers_json_or_throw)
qed

theorem completed_fetches_once_witness:
  "(0::nat) < 60
   \<and> answers (json_response (with_status ''completed'')) (with_status ''completed'')
   \<and> status_of (with_status ''completed'') = JStr ''completed''
   \<and> waitForCompletion (always (json_response (with_status ''completed''))) (JStr ''t1'') ''imagegen''
        ''flux_dev'' (JStr ''u1'') (JStr ''tok'') 60 0 []
       = (Inr (with_status ''completed''),
          [Fetch \<lparr>url = ''https://api.genvrresearch.com/api/v1/status'', http_method = ''POST'',
                  authorization = ''Bearer tok'',
                  req_body = Some (JObj [(''id'', JStr ''t1''), (''category'', JStr ''imagegen''),
                                         (''subcategory'', JStr ''flux_dev''), (''uid'', JStr ''u1'')])\<rparr>,
           Fetch \<lparr>url = ''https://api.genvrresearch.com/api/v1/response'', http_method = ''POST'',
                  authorization = ''Bearer tok'',
                  req_body = Some (JObj [(''id'', JStr ''t1''), (''category'', JStr ''imagegen''),
                                         (''subcategory'', JStr ''flux_dev''), (''uid'', JStr ''u1'')])\<rparr>])
   \<and> lite_waitForCompletion sample_env (always (json_response (with_status ''completed''))) (JStr ''t1'')
        ''imagegen'' ''flux_dev'' 60 0 []
       = (Inr (with_status ''completed''),
          [Fetch \<lparr>url = ''https://api.genvrresearch.com/api/v1/status'', http_method = ''POST'',
                  authorization = ''Bearer tok'',
                  req_body = Some (JObj [(''id'', JStr ''t1''), (''category'', JStr ''imagegen''),
                                         (''subcategory'', JStr ''flux_dev''), (''uid'', JStr ''u1'')])\<rparr>,
           Fetch \<lparr>url = ''https://api.genvrresearch.com/api/v1/response'', http_method = ''POST'',
                  authorization = ''Bearer tok'',
                  req_body = Some (JObj [(''id'', JStr ''t1''), (''category'', JStr ''imagegen''),
                                         (''subcategory'', JStr ''flux_dev''), (''uid'', JStr ''u1'')])\<rparr>])"
proof -
  note th = completed_fetches_once [where i = 0 and maxAttempts = 60
      and net = "always (json_response (with_status ''completed''))" and tr = "[]"
      and taskId = "JStr ''t1''" and category = "''imagegen''" and subcategory = "''flux_dev''"
      and userId = "JStr ''u1''" and accessToken = "JStr ''tok''" and e = sample_env
      and sd = "with_status ''completed''" and v = "with_status ''completed''"]
  note facts = always_def answers_json_response with_status_facts requests_sent_Nil
    text_of_def api_base_def sample_env_def
  have 1: "waitForCompletion (always (json_response (with_status ''completed''))) (JStr ''t1'') ''imagegen''
        ''flux_dev'' (JStr ''u1'') (JStr ''tok'') 60 0 []
       = (Inr (with_status ''completed''),
          [Fetch \<lparr>url = ''https://api.genvrresearch.com/api/v1/status'', http_method = ''POST'',
                  authorization = ''Bearer tok'',
                  req_body = Some (JObj [(''id'', JStr ''t1''), (''category'', JStr ''imagegen''),
                                         (''subcategory'', JStr ''flux_dev''), (''uid'', JStr ''u1'')])\<rparr>,
           Fetch \<lparr>url = ''https://api.genvrresearch.com/api/v1/response'', http_method = ''POST'',
                  authorization = ''Bearer tok'',
                  req_body = Some (JObj [(''id'', JStr ''t1''), (''category'', JStr ''imagegen''),
                                         (''subcategory'', JStr ''flux_dev''), (''uid'', JStr ''u1'')])\<rparr>])"
    using th [THEN conjunct1] by (simp add: facts prod_eq_iff)
  have 2: "lite_waitForCompletion sample_env (always (json_response (with_status ''completed''))) (JStr ''t1'')
        ''imagegen'' ''flux_dev'' 60 0 []
       = (Inr (with_status ''completed''),
          [Fetch \<lparr>url = ''https://api.genvrresearch.com/api/v1/status'', http_method = ''POST'',
                  authorization = ''Bearer tok'',
                  req_body = Some (JObj [(''id'', JStr ''t1''), (''category'', JStr ''imagegen''),
                                         (''subcategory'', JStr ''flux_dev''), (''uid'', JStr ''u1'')])\<rparr>,
           Fetch \<lparr>url = ''https://api.genvrresearch.com/api/v1/response'', http_method = ''POST'',
                  authorization = ''Bearer tok'',
                  req_body = Some (JObj [(''id'', JStr ''t1''), (''category'', JStr ''imagegen''),
                                         (''subcategory'', JStr ''flux_dev''), (''uid'', JStr ''u1'')])\<rparr>])"
    using th [THEN conjunct2] by (simp add: facts prod_eq_iff)
  show ?thesis
    by (intro conjI 1 2) (simp_all add: facts)
qed

text \<open>What the error of a failed task carries, by the shape of the upstream detail.\<close>

lemma to_string_fails_truthy: "to_string v = Inl x \<Longrightarrow> truthy v"
  by (cases v) simp_all

lemma task_failed_cases:
  "error_of sd = JStr d \<and> d \<noteq> [] \<longrightarrow> task_failed sd = Error (''Task failed: '' @ d)"
  "\<not> truthy (error_of sd) \<longrightarrow> task_failed sd = Error ''Task failed: Unknown error''"
  "error_of sd = JObj kvs \<and> ''toString'' \<notin> fst ` set kvs
     \<longrightarrow> task_failed sd = Error ''Task failed: [object Object]''"
  "truthy (error_of sd) \<and> to_string (error_of sd) = Inr s
     \<longrightarrow> task_failed sd = Error (''Task failed: '' @ s)"
  "to_string (error_of sd) = Inl x \<longrightarrow> task_failed sd = x"
  using to_string_fails_truthy [of "error_of sd" x]
  by (auto simp add: task_failed_def js_or_def)

lemma failed_payload_facts:
  "truthy failed_payload" "\<not> nullish failed_payload" "status_of failed_payload = JStr ''failed''"
  "error_of failed_payload = JStr ''NSFW content''"
  by (simp_all add: failed_payload_def status_of_def error_of_def opt_prop_def js_or_def)

lemma structured_failure_facts:
  "truthy structured_failure" "\<not> nullish structured_failure"
  "status_of structured_failure = JStr ''failed''"
  "error_of structured_failure = JObj [(''code'', JNum ''429''), (''message'', JStr ''rate limited'')]"
  by (simp_all add: structured_failure_def status_of_def error_of_def opt_prop_def js_or_def)

text \<open>
  C7 (as claimed). A failed task whose upstream error detail is the object
  \<^verbatim>\<open>{code: 429, message: "rate limited"}\<close>: the detail is present, and the error both pollers
  raise is \<open>Task failed: [object Object]\<close>, which carries nothing of it.
\<close>

theorem structured_error_detail_counterexample:
  "status_of structured_failure = JStr ''failed''
   \<and> error_of structured_failure = JObj [(''code'', JNum ''429''), (''message'', JStr ''rate limited'')]
   \<and> truthy (error_of structured_failure)
   \<and> fst (waitForCompletion (always (json_response structured_failure)) (JStr ''t1'') ''imagegen''
        ''flux_dev'' (JStr ''u1'') (JStr ''tok'') 60 0 [])
       = Inl (Error ''Task failed: [object Object]'')
   \<and> fst (lite_waitForCompletion sample_env (always (json_response structured_failure)) (JStr ''t1'')
        ''imagegen'' ''flux_dev'' 60 0 [])
       = Inl (Error ''Task failed: [object Object]'')"
proof -
  have t: "task_failed structured_failure = Error ''Task failed: [object Object]''"
    using task_failed_cases(3) [of structured_failure
        "[(''code'', JNum ''429''), (''message'', JStr ''rate limited'')]"]
    by (simp add: structured_failure_facts)
  have j: "json_or_null (json_response structured_failure) = structured_failure"
    "json_or_throw (json_response structured_failure) = Inr structured_failure"
    by (simp_all add: answers_json_or_null answers_json_or_throw answers_json_response)
  have 1: "fst (waitForCompletion (always (json_response structured_failure)) (JStr ''t1'') ''imagegen''
        ''flux_dev'' (JStr ''u1'') (JStr ''tok'') 60 0 [])
       = Inl (Error ''Task failed: [object Object]'')"
    by (subst wfc_failed) (simp_all add: always_def j structured_failure_facts t)
  have 2: "fst (lite_waitForCompletion sample_env (always (json_response structured_failure)) (JStr ''t1'')
        ''imagegen'' ''flux_dev'' 60 0 [])
       = Inl (Error ''Task failed: [object Object]'')"
    by (subst lite_failed [where sd = structured_failure])
       (simp_all add: always_def j structured_failure_facts t)
  show ?thesis
    by (intro conjI 1 2) (simp_all add: structured_failure_facts)
qed

text \<open>
  C7 (as amended). In both pollers, when a status check is answered with a payload whose status
  is \<open>failed\<close>, the poll ends there with an error, and the trace grows by the status request and
  nothing else: no fetch of the result, no retry, no sleep. The error is built from the payload's
  detail (\<^verbatim>\<open>data.error\<close>, else \<^verbatim>\<open>error\<close>) by interpolation into a message:
  \<^item> a detail that is a non-empty string \<open>d\<close> gives \<open>Task failed: d\<close>;
  \<^item> an absent or falsy detail (\<^verbatim>\<open>undefined\<close>, \<^verbatim>\<open>null\<close>, \<^verbatim>\<open>""\<close>, \<^verbatim>\<open>0\<close>, \<^verbatim>\<open>false\<close>) gives
    \<open>Task failed: Unknown error\<close>;
  \<^item> an object gives \<open>Task failed: [object Object]\<close>, and any other truthy detail
    \<open>Task failed: s\<close> for its string conversion \<open>s\<close>;
  \<^item> a detail that has no string conversion (an object, or an array holding one, with a key
    \<^verbatim>\<open>toString\<close> of its own) gives the TypeError of that conversion instead.

  When this happens at the first check, the poll has not slept.
\<close>

theorem failed_status_ends_poll:
  "(i < maxAttempts
      \<and> answers (net (requests_sent tr) (status_request taskId category subcategory userId accessToken)) sd
      \<and> status_of sd = JStr ''failed'' \<longrightarrow>
    (\<exists>err. waitForCompletion net taskId category subcategory userId accessToken maxAttempts i tr
             = (Inl err, tr @ [Fetch (status_request taskId category subcategory userId accessToken)])
       \<and> (\<forall>d. error_of sd = JStr d \<and> d \<noteq> [] \<longrightarrow> err = Error (''Task failed: '' @ d))
       \<and> (\<not> truthy (error_of sd) \<longrightarrow> err = Error ''Task failed: Unknown error'')
       \<and> (\<forall>kvs. error_of sd = JObj kvs \<and> ''toString'' \<notin> fst ` set kvs
             \<longrightarrow> err = Error ''Task failed: [object Object]'')
       \<and> (\<forall>s. truthy (error_of sd) \<and> to_string (error_of sd) = Inr s
             \<longrightarrow> err = Error (''Task failed: '' @ s))
       \<and> (\<forall>x. to_string (error_of sd) = Inl x \<longrightarrow> err = x)))
   \<and> (i < maxAttempts
      \<and> answers (net (requests_sent tr) (lite_status_request e taskId category subcategory)) sd
      \<and> status_of sd = JStr ''failed'' \<longrightarrow>
    (\<exists>err. lite_waitForCompletion e net taskId category subcategory maxAttempts i tr
             = (Inl err, tr @ [Fetch (lite_status_request e taskId category subcategory)])
       \<and> (\<forall>d. error_of sd = JStr d \<and> d \<noteq> [] \<longrightarrow> err = Error (''Task failed: '' @ d))
       \<and> (\<not> truthy (error_of sd) \<longrightarrow> err = Error ''Task failed: Unknown error'')
       \<and> (\<forall>kvs. error_of sd = JObj kvs \<and> ''toString'' \<notin> fst ` set kvs
             \<longrightarrow> err = Error ''Task failed: [object Object]'')
       \<and> (\<forall>s. truthy (error_of sd) \<and> to_string (error_of sd) = Inr s
             \<longrightarrow> err = Error (''Task failed: '' @ s))
       \<and> (\<forall>x. to_string (error_of sd) = Inl x \<longrightarrow> err = x)))
   \<and> (answers (net 0 (status_request taskId category subcategory userId accessToken)) sd
      \<and> status_of sd = JStr ''failed'' \<longrightarrow>
    total_sleep (snd (waitForCompletion net taskId category subcategory userId accessToken 60 0 [])) = 0)
   \<and> (answers (net 0 (lite_status_request e taskId category subcategory)) sd
      \<and> status_of sd = JStr ''failed'' \<longrightarrow>
    total_sleep (snd (lite_waitForCompletion e net taskId category subcategory 60 0 [])) = 0)"
proof -
  have w: "waitForCompletion net taskId category subcategory userId accessToken m j t
      = (Inl (task_failed sd), t @ [Fetch (status_request taskId category subcategory userId accessToken)])"
    if "j < m" "answers (net (requests_sent t) (status_request taskId category subcategory userId accessToken)) sd"
      "status_of sd = JStr ''failed''" for m j t
    using that status_is_object [OF that(3)] wfc_failed [where net = net and tr = t and i = j and maxAttempts = m
        and taskId = taskId and category = category and subcategory = subcategory
        and userId = userId and accessToken = accessToken]
    by (simp add: answers_json_or_null)
  have l: "lite_waitForCompletion e net taskId category subcategory m j t
      = (Inl (task_failed sd), t @ [Fetch (lite_status_request e taskId category subcategory)])"
    if "j < m" "answers (net (requests_sent t) (lite_status_request e taskId category subcategory)) sd"
      "status_of sd = JStr ''failed''" for m j t
    using that status_is_object [OF that(3)] lite_failed [where net = net and tr = t and i = j and maxAttempts = m
        and sd = sd and e = e and taskId = taskId and category = category and subcategory = subcategory]
    by (simp add: answers_json_or_throw)
  have c: "(\<forall>d. error_of sd = JStr d \<and> d \<noteq> [] \<longrightarrow> task_failed sd = Error (''Task failed: '' @ d))
       \<and> (\<not> truthy (error_of sd) \<longrightarrow> task_failed sd = Error ''Task failed: Unknown error'')
       \<and> (\<forall>kvs. error_of sd = JObj kvs \<and> ''toString'' \<notin> fst ` set kvs
             \<longrightarrow> task_failed sd = Error ''Task failed: [object Object]'')
       \<and> (\<forall>s. truthy (error_of sd) \<and> to_string (error_of sd) = Inr s
             \<longrightarrow> task_failed sd = Error (''Task failed: '' @ s))
       \<and> (\<forall>x. to_string (error_of sd) = Inl x \<longrightarrow> task_failed sd = x)"
    by (intro conjI allI task_failed_cases)
  have 1: "\<exists>err. waitForCompletion net taskId category subcategory userId accessToken maxAttempts i tr
             = (Inl err, tr @ [Fetch (status_request taskId category subcategory userId accessToken)])
       \<and> (\<forall>d. error_of sd = JStr d \<and> d \<noteq> [] \<longrightarrow> err = Error (''Task failed: '' @ d))
       \<and> (\<not> truthy (error_of sd) \<longrightarrow> err = Error ''Task failed: Unknown error'')
       \<and> (\<forall>kvs. error_of sd = JObj kvs \<and> ''toString'' \<notin> fst ` set kvs
             \<longrightarrow> err = Error ''Task failed: [object Object]'')
       \<and> (\<forall>s. truthy (error_of sd) \<and> to_string (error_of sd) = Inr s
             \<longrightarrow> err = Error (''Task failed: '' @ s))
       \<and> (\<forall>x. to_string (error_of sd) = Inl x \<longrightarrow> err = x)"
    if "i < maxAttempts
      \<and> answers (net (requests_sent tr) (status_request taskId category subcategory userId accessToken)) sd
      \<and> status_of sd = JStr ''failed''"
    using w [of i maxAttempts tr] that c by (intro exI [of _ "task_failed sd"] conjI) simp_all
  have 2: "\<exists>err. lite_waitForCompletion e net taskId category subcategory maxAttempts i tr
             = (Inl err, tr @ [Fetch (lite_status_request e taskId category subcategory)])
       \<and> (\<forall>d. error_of sd = JStr d \<and> d \<noteq> [] \<longrightarrow> err = Error (''Task failed: '' @ d))
       \<and> (\<not> truthy (error_of sd) \<longrightarrow> err = Error ''Task failed: Unknown error'')
       \<and> (\<forall>kvs. error_of sd = JObj kvs \<and> ''toString'' \<notin> fst ` set kvs
             \<longrightarrow> err = Error ''Task failed: [object Object]'')
       \<and> (\<forall>s. truthy (error_of sd) \<and> to_string (error_of sd) = Inr s
             \<longrightarrow> err = Error (''Task failed: '' @ s))
       \<and> (\<forall>x. to_string (error_of sd) = Inl x \<longrightarrow> err = x)"
    if "i < maxAttempts
      \<and> answers (net (requests_sent tr) (lite_status_request e taskId category subcategory)) sd
      \<and> status_of sd = JStr ''failed''"
    using l [of i maxAttempts tr] that c by (intro exI [of _ "task_failed sd"] conjI) simp_all
  have 3: "total_sleep (snd (waitForCompletion net taskId category subcategory userId accessToken 60 0 [])) = 0"
    if "answers (net 0 (status_request taskId category subcategory userId accessToken)) sd
      \<and> status_of sd = JStr ''failed''"
    using w [of 0 60 "[]"] that by (simp add: total_sleep_simps requests_sent_Nil)
  have 4: "total_sleep (snd (lite_waitForCompletion e net taskId category subcategory 60 0 [])) = 0"
    if "answers (net 0 (lite_status_request e taskId category subcategory)) sd
      \<and> status_of sd = JStr ''failed''"
    using l [of 0 60 "[]"] that by (simp add: total_sleep_simps requests_sent_Nil)
  show ?thesis
    using 1 2 3 4 by (intro conjI impI) blast+
qed

theorem failed_status_ends_poll_witness:
  "(0::nat) < 60
   \<and> answers (always (json_response failed_payload) (requests_sent [])
        (status_request (JStr ''t1'') ''imagegen'' ''flux_dev'' (JStr ''u1'') (JStr ''tok''))) failed_payload
   \<and> answers (always (json_response failed_payload) (requests_sent [])
        (lite_status_request sample_env (JStr ''t1'') ''imagegen'' ''flux_dev'')) failed_payload
   \<and> status_of failed_payload = JStr ''failed''
   \<and> error_of failed_payload = JStr ''NSFW content'' \<and> ''NSFW content'' \<noteq> []
   \<and> waitForCompletion (always (json_response failed_payload)) (JStr ''t1'') ''imagegen''
        ''flux_dev'' (JStr ''u1'') (JStr ''tok'') 60 0 []
       = (Inl (Error ''Task failed: NSFW content''),
          [Fetch (status_request (JStr ''t1'') ''imagegen'' ''flux_dev'' (JStr ''u1'') (JStr ''tok''))])
   \<and> lite_waitForCompletion sample_env (always (json_response failed_payload)) (JStr ''t1'')
        ''imagegen'' ''flux_dev'' 60 0 []
       = (Inl (Error ''Task failed: NSFW content''),
          [Fetch (lite_status_request sample_env (JStr ''t1'') ''imagegen'' ''flux_dev'')])
   \<and> total_sleep (snd (waitForCompletion (always (json_response failed_payload)) (JStr ''t1'') ''imagegen''
        ''flux_dev'' (JStr ''u1'') (JStr ''tok'') 60 0 [])) = 0
   \<and> total_sleep (snd (lite_waitForCompletion sample_env (always (json_response failed_payload)) (JStr ''t1'')
        ''imagegen'' ''flux_dev'' 60 0 [])) = 0"
proof -
  note th = failed_status_ends_poll [where i = 0 and maxAttempts = 60
      and net = "always (json_response failed_payload)" and tr = "[]"
      and taskId = "JStr ''t1''" and category = "''imagegen''" and subcategory = "''flux_dev''"
      and userId = "JStr ''u1''" and accessToken = "JStr ''tok''" and e = sample_env
      and sd = failed_payload]
  note facts = always_def answers_json_response failed_payload_facts requests_sent_Nil
  have 1: "waitForCompletion (always (json_response failed_payload)) (JStr ''t1'') ''imagegen''
        ''flux_dev'' (JStr ''u1'') (JStr ''tok'') 60 0 []
       = (Inl (Error ''Task failed: NSFW content''),
          [Fetch (status_request (JStr ''t1'') ''imagegen'' ''flux_dev'' (JStr ''u1'') (JStr ''tok''))])"
    using th [THEN conjunct1] by (auto simp add: facts)
  have 2: "lite_waitForCompletion sample_env (always (json_response failed_payload)) (JStr ''t1'')
        ''imagegen'' ''flux_dev'' 60 0 []
       = (Inl (Error ''Task failed: NSFW content''),
          [Fetch (lite_status_request sample_env (JStr ''t1'') ''imagegen'' ''flux_dev'')])"
    using th [THEN conjunct2, THEN conjunct1] by (auto simp add: facts)
  have 3: "total_sleep (snd (waitForCompletion (always (json_response failed_payload)) (JStr ''t1'') ''imagegen''
        ''flux_dev'' (JStr ''u1'') (JStr ''tok'') 60 0 [])) = 0"
    using th [THEN conjunct2, THEN conjunct2, THEN conjunct1] by (simp add: facts)
  have 4: "total_sleep (snd (lite_waitForCompletion sample_env (always (json_response failed_payload)) (JStr ''t1'')
        ''imagegen'' ''flux_dev'' 60 0 [])) = 0"
    using th [THEN conjunct2, THEN conjunct2, THEN conjunct2] by (simp add: facts)
  show ?thesis
    by (intro conjI 1 2 3 4) (simp_all add: facts)
qed

subsection \<open>Exhausted attempts\<close>

lemma status_request_neq_result_request:
  "status_request taskId category subcategory userId accessToken
     \<noteq> result_request taskId category subcategory userId accessToken"
  "lite_status_request e taskId category subcategory \<noteq> lite_result_request e taskId category subcategory"
  by (simp_all add: status_request_def result_request_def worker_request_def
        lite_status_request_def lite_result_request_def api_request_def)

text \<open>
  C8. In both pollers, when each of the 60 status checks of a poll is answered with a payload
  that is neither completed nor failed (whatever its status, or with none), the poll ends with
  the error \<open>Task timed out\<close>; its trace is the 60 rounds of status request and sleep, and the
  request that fetches the result is not among them.
\<close>

theorem sixty_pending_times_out:
  "((\<forall>k<60. \<exists>sd. answers (net (requests_sent tr + k)
                  (status_request taskId category subcategory userId accessToken)) sd
              \<and> truthy sd \<and> pending sd) \<longrightarrow>
    waitForCompletion net taskId category subcategory userId accessToken 60 0 tr
      = (Inl (Error ''Task timed out''),
         tr @ pending_rounds (status_request taskId category subcategory userId accessToken) 0 60)
    \<and> Fetch (result_request taskId category subcategory userId accessToken)
        \<notin> set (pending_rounds (status_request taskId category subcategory userId accessToken) 0 60))
   \<and> ((\<forall>k<60. \<exists>sd. answers (net (requests_sent tr + k)
                  (lite_status_request e taskId category subcategory)) sd
              \<and> \<not> nullish sd \<and> pending sd) \<longrightarrow>
    lite_waitForCompletion e net taskId category subcategory 60 0 tr
      = (Inl (Error ''Task timed out''),
         tr @ pending_rounds (lite_status_request e taskId category subcategory) 0 60)
    \<and> Fetch (lite_result_request e taskId category subcategory)
        \<notin> set (pending_rounds (lite_status_request e taskId category subcategory) 0 60))"
proof (intro conjI impI)
  let ?req = "status_request taskId category subcategory userId accessToken"
  assume h: "\<forall>k<60. \<exists>sd. answers (net (requests_sent tr + k) ?req) sd \<and> truthy sd \<and> pending sd"
  have "\<forall>k<60. truthy (json_or_null (net (requests_sent tr + k) ?req))
            \<and> pending (json_or_null (net (requests_sent tr + k) ?req))"
  proof (intro allI impI)
    fix k :: nat assume "k < 60"
    with h obtain sd where "answers (net (requests_sent tr + k) ?req) sd" "truthy sd" "pending sd"
      by blast
    then show "truthy (json_or_null (net (requests_sent tr + k) ?req))
            \<and> pending (json_or_null (net (requests_sent tr + k) ?req))"
      by (simp add: answers_json_or_null)
  qed
  from wfc_pending_rounds [where net = net and tr = tr and n = 60 and i = 0 and maxAttempts = 60, OF this]
  show "waitForCompletion net taskId category subcategory userId accessToken 60 0 tr
      = (Inl (Error ''Task timed out''), tr @ pending_rounds ?req 0 60)"
    by (simp add: wfc_exhausted)
next
  show "Fetch (result_request taskId category subcategory userId accessToken)
        \<notin> set (pending_rounds (status_request taskId category subcategory userId accessToken) 0 60)"
    using fetch_in_pending_rounds status_request_neq_result_request(1) by metis
next
  let ?req = "lite_status_request e taskId category subcategory"
  assume h: "\<forall>k<60. \<exists>sd. answers (net (requests_sent tr + k) ?req) sd \<and> \<not> nullish sd \<and> pending sd"
  from lite_pending_rounds [where net = net and tr = tr and n = 60 and i = 0 and maxAttempts = 60, OF h]
  show "lite_waitForCompletion e net taskId category subcategory 60 0 tr
      = (Inl (Error ''Task timed out''), tr @ pending_rounds ?req 0 60)"
    by (simp add: lite_exhausted)
next
  show "Fetch (lite_result_request e taskId category subcategory)
        \<notin> set (pending_rounds (lite_status_request e taskId category subcategory) 0 60)"
    using fetch_in_pending_rounds status_request_neq_result_request(2) by metis
qed

theorem sixty_pending_times_out_witness:
  "waitForCompletion (always (json_response (with_status ''pending''))) (JStr ''t1'') ''imagegen''
      ''flux_dev'' (JStr ''u1'') (JStr ''tok'') 60 0 []
     = (Inl (Error ''Task timed out''),
        pending_rounds (status_request (JStr ''t1'') ''imagegen'' ''flux_dev'' (JStr ''u1'') (JStr ''tok'')) 0 60)
   \<and> lite_waitForCompletion sample_env (always (json_response (with_status ''pending''))) (JStr ''t1'')
      ''imagegen'' ''flux_dev'' 60 0 []
     = (Inl (Error ''Task timed out''),
        pending_rounds (lite_status_request sample_env (JStr ''t1'') ''imagegen'' ''flux_dev'') 0 60)"
proof -
  have h: "\<forall>k<60. \<exists>sd. answers (always (json_response (with_status ''pending'')) (requests_sent [] + k) req) sd
              \<and> truthy sd \<and> \<not> nullish sd \<and> pending sd" for req
    by (simp add: always_def answers_json_response with_status_facts pending_def)
  have h1: "\<forall>k<60. \<exists>sd. answers (always (json_response (with_status ''pending'')) (requests_sent [] + k)
                (status_request (JStr ''t1'') ''imagegen'' ''flux_dev'' (JStr ''u1'') (JStr ''tok''))) sd
              \<and> truthy sd \<and> pending sd"
    using h by blast
  have h2: "\<forall>k<60. \<exists>sd. answers (always (json_response (with_status ''pending'')) (requests_sent [] + k)
                (lite_status_request sample_env (JStr ''t1'') ''imagegen'' ''flux_dev'')) sd
              \<and> \<not> nullish sd \<and> pending sd"
    using h by blast
  note th = sixty_pending_times_out [where net = "always (json_response (with_status ''pending''))"
      and tr = "[]" and taskId = "JStr ''t1''" and category = "''imagegen''" and subcategory = "''flux_dev''"
      and userId = "JStr ''u1''" and accessToken = "JStr ''tok''" and e = sample_env]
  from th [THEN conjunct1, THEN mp, OF h1] th [THEN conjunct2, THEN mp, OF h2]
  show ?thesis by simp
qed

subsection \<open>Transport failures\<close>

text \<open>When the fetch of the result fails in the Worker, \<^verbatim>\<open>makeGenVRRequest\<close> gives
  \<^verbatim>\<open>null\<close> and the poll returns it as the result.\<close>

lemma worker_result_failure_returns_null:
  assumes "i < maxAttempts"
    and "answers (net (requests_sent tr) (status_request taskId category subcategory userId accessToken)) sd"
    and "truthy sd" and "status_of sd = JStr ''completed''"
    and "transport_failure (net (Suc (requests_sent tr))
           (result_request taskId category subcategory userId accessToken))"
  shows "waitForCompletion net taskId category subcategory userId accessToken maxAttempts i tr
           = (Inr JNull,
              tr @ [Fetch (status_request taskId category subcategory userId accessToken),
                    Fetch (result_request taskId category subcategory userId accessToken)])"
proof -
  from assms(2) have sd: "json_or_null (net (requests_sent tr)
      (status_request taskId category subcategory userId accessToken)) = sd"
    by (rule answers_json_or_null)
  from assms(3,4) sd have t: "truthy (json_or_null (net (requests_sent tr)
      (status_request taskId category subcategory userId accessToken)))"
    and c: "status_of (json_or_null (net (requests_sent tr)
      (status_request taskId category subcategory userId accessToken))) = JStr ''completed''"
    by simp_all
  from wfc_completed [where net = net and tr = tr, OF assms(1) t c] failure_json_or_null [OF assms(5)]
  show ?thesis by simp
qed

text \<open>
  C2 (as amended). In every iteration of a poll, a transport failure of the status request (a
  network error or a response that is not 2xx) ends the poll at once with an error: the trace
  grows by that request alone, so nothing is slept, nothing is retried and the failure is not
  taken for a pending status. In the Worker the error is \<open>Failed to get status\<close>. In the
  standalone server it is the rejection of the fetch or, for a response that is not 2xx, an
  error whose message holds the HTTP status, the status text and the body; and a transport
  failure of the request that fetches the result ends the poll in the same way.
\<close>

theorem transport_failure_ends_poll:
  "(i < maxAttempts
      \<and> transport_failure (net (requests_sent tr)
            (status_request taskId category subcategory userId accessToken)) \<longrightarrow>
    waitForCompletion net taskId category subcategory userId accessToken maxAttempts i tr
      = (Inl (Error ''Failed to get status''),
         tr @ [Fetch (status_request taskId category subcategory userId accessToken)]))
   \<and> (i < maxAttempts
      \<and> transport_failure (net (requests_sent tr) (lite_status_request e taskId category subcategory)) \<longrightarrow>
    lite_waitForCompletion e net taskId category subcategory maxAttempts i tr
      = (Inl (thrown_for (net (requests_sent tr) (lite_status_request e taskId category subcategory))),
         tr @ [Fetch (lite_status_request e taskId category subcategory)]))
   \<and> (i < maxAttempts
      \<and> answers (net (requests_sent tr) (lite_status_request e taskId category subcategory)) sd
      \<and> status_of sd = JStr ''completed''
      \<and> transport_failure (net (Suc (requests_sent tr)) (lite_result_request e taskId category subcategory)) \<longrightarrow>
    lite_waitForCompletion e net taskId category subcategory maxAttempts i tr
      = (Inl (thrown_for (net (Suc (requests_sent tr)) (lite_result_request e taskId category subcategory))),
         tr @ [Fetch (lite_status_request e taskId category subcategory),
               Fetch (lite_result_request e taskId category subcategory)]))
   \<and> thrown_for (Fails m) = Rejected m
   \<and> thrown_for (Responds r)
       = Error (''GenVR API error: '' @ show_nat (status r) @ '' '' @ statusText r @ '' - '' @ body_text r)"
proof (intro conjI impI)
  assume h: "i < maxAttempts
      \<and> transport_failure (net (requests_sent tr)
            (status_request taskId category subcategory userId accessToken))"
  then have "\<not> truthy (json_or_null (net (requests_sent tr)
            (status_request taskId category subcategory userId accessToken)))"
    by (simp add: failure_json_or_null)
  with h show "waitForCompletion net taskId category subcategory userId accessToken maxAttempts i tr
      = (Inl (Error ''Failed to get status''),
         tr @ [Fetch (status_request taskId category subcategory userId accessToken)])"
    by (simp add: wfc_status_lost)
next
  assume h: "i < maxAttempts
      \<and> transport_failure (net (requests_sent tr) (lite_status_request e taskId category subcategory))"
  then have "json_or_throw (net (requests_sent tr) (lite_status_request e taskId category subcategory))
      = Inl (thrown_for (net (requests_sent tr) (lite_status_request e taskId category subcategory)))"
    by (simp add: failure_json_or_throw)
  with h show "lite_waitForCompletion e net taskId category subcategory maxAttempts i tr
      = (Inl (thrown_for (net (requests_sent tr) (lite_status_request e taskId category subcategory))),
         tr @ [Fetch (lite_status_request e taskId category subcategory)])"
    by (simp add: lite_status_thrown)
next
  assume h: "i < maxAttempts
      \<and> answers (net (requests_sent tr) (lite_status_request e taskId category subcategory)) sd
      \<and> status_of sd = JStr ''completed''
      \<and> transport_failure (net (Suc (requests_sent tr)) (lite_result_request e taskId category subcategory))"
  then have i: "i < maxAttempts" and n: "\<not> nullish sd" and c: "status_of sd = JStr ''completed''"
    and sd: "json_or_throw (net (requests_sent tr) (lite_status_request e taskId category subcategory)) = Inr sd"
    and f: "json_or_throw (net (Suc (requests_sent tr)) (lite_result_request e taskId category subcategory))
      = Inl (thrown_for (net (Suc (requests_sent tr)) (lite_result_request e taskId category subcategory)))"
    by (simp_all add: answers_json_or_throw failure_json_or_throw status_is_object)
  from lite_completed [where net = net and tr = tr, OF i sd n c] f
  show "lite_waitForCompletion e net taskId category subcategory maxAttempts i tr
      = (Inl (thrown_for (net (Suc (requests_sent tr)) (lite_result_request e taskId category subcategory))),
         tr @ [Fetch (lite_status_request e taskId category subcategory),
               Fetch (lite_result_request e taskId category subcategory)])"
    by simp
qed (simp_all add: api_error_def)

lemma server_error_fails: "transport_failure server_error"
  by (simp add: server_error_def ok_def)

theorem transport_failure_ends_poll_witness:
  "(0::nat) < 60 \<and> transport_failure server_error
   \<and> answers (json_response (with_status ''completed'')) (with_status ''completed'')
   \<and> \<not> nullish (with_status ''completed'') \<and> status_of (with_status ''completed'') = JStr ''completed''
   \<and> waitForCompletion (always server_error) (JStr ''t1'') ''imagegen'' ''flux_dev'' (JStr ''u1'')
        (JStr ''tok'') 60 0 []
       = (Inl (Error ''Failed to get status''),
          [Fetch (status_request (JStr ''t1'') ''imagegen'' ''flux_dev'' (JStr ''u1'') (JStr ''tok''))])
   \<and> lite_waitForCompletion sample_env (always server_error) (JStr ''t1'') ''imagegen'' ''flux_dev'' 60 0 []
       = (Inl (Error ''GenVR API error: 500 Internal Server Error - boom''),
          [Fetch (lite_status_request sample_env (JStr ''t1'') ''imagegen'' ''flux_dev'')])
   \<and> lite_waitForCompletion sample_env (scripted [json_response (with_status ''completed''), server_error])
        (JStr ''t1'') ''imagegen'' ''flux_dev'' 60 0 []
       = (Inl (Error ''GenVR API error: 500 Internal Server Error - boom''),
          [Fetch (lite_status_request sample_env (JStr ''t1'') ''imagegen'' ''flux_dev''),
           Fetch (lite_result_request sample_env (JStr ''t1'') ''imagegen'' ''flux_dev'')])"
proof -
  have msg: "thrown_for server_error = Error ''GenVR API error: 500 Internal Server Error - boom''"
    by (simp add: server_error_def api_error_def digit_def)
  note th1 = transport_failure_ends_poll [where i = 0 and maxAttempts = 60 and net = "always server_error"
      and tr = "[]" and taskId = "JStr ''t1''" and category = "''imagegen''" and subcategory = "''flux_dev''"
      and userId = "JStr ''u1''" and accessToken = "JStr ''tok''" and e = sample_env]
  note th2 = transport_failure_ends_poll [where i = 0 and maxAttempts = 60
      and net = "scripted [json_response (with_status ''completed''), server_error]"
      and tr = "[]" and taskId = "JStr ''t1''" and category = "''imagegen''" and subcategory = "''flux_dev''"
      and e = sample_env and sd = "with_status ''completed''"]
  note facts = always_def scripted_def answers_json_response with_status_facts requests_sent_Nil
    server_error_fails msg
  have 1: "waitForCompletion (always server_error) (JStr ''t1'') ''imagegen'' ''flux_dev'' (JStr ''u1'')
        (JStr ''tok'') 60 0 []
       = (Inl (Error ''Failed to get status''),
          [Fetch (status_request (JStr ''t1'') ''imagegen'' ''flux_dev'' (JStr ''u1'') (JStr ''tok''))])"
    using th1 [THEN conjunct1] by (simp add: facts)
  have 2: "lite_waitForCompletion sample_env (always server_error) (JStr ''t1'') ''imagegen'' ''flux_dev'' 60 0 []
       = (Inl (Error ''GenVR API error: 500 Internal Server Error - boom''),
          [Fetch (lite_status_request sample_env (JStr ''t1'') ''imagegen'' ''flux_dev'')])"
    using th1 [THEN conjunct2, THEN conjunct1] by (simp add: facts)
  have 3: "lite_waitForCompletion sample_env (scripted [json_response (with_status ''completed''), server_error])
        (JStr ''t1'') ''imagegen'' ''flux_dev'' 60 0 []
       = (Inl (Error ''GenVR API error: 500 Internal Server Error - boom''),
          [Fetch (lite_status_request sample_env (JStr ''t1'') ''imagegen'' ''flux_dev''),
           Fetch (lite_result_request sample_env (JStr ''t1'') ''imagegen'' ''flux_dev'')])"
    using th2 [THEN conjunct2, THEN conjunct2, THEN conjunct1] by (simp add: facts)
  show ?thesis
    by (intro conjI 1 2 3) (simp_all add: facts)
qed

text \<open>The claim as stated fails in the Worker: a status check answered with status 500 and the
  body \<open>boom\<close> raises \<open>Failed to get status\<close>, an error that holds neither the status nor the
  body.\<close>

theorem worker_status_failure_counterexample:
  "transport_failure server_error
   \<and> waitForCompletion (always server_error) (JStr ''t1'') ''imagegen'' ''flux_dev'' (JStr ''u1'')
        (JStr ''tok'') 60 0 []
       = (Inl (Error ''Failed to get status''),
          [Fetch (status_request (JStr ''t1'') ''imagegen'' ''flux_dev'' (JStr ''u1'') (JStr ''tok''))])
   \<and> \<not> str_includes (message (Error ''Failed to get status'')) ''500''
   \<and> \<not> str_includes (message (Error ''Failed to get status'')) ''boom''"
proof -
  have "\<not> truthy (json_or_null (always server_error (requests_sent [])
          (status_request (JStr ''t1'') ''imagegen'' ''flux_dev'' (JStr ''u1'') (JStr ''tok''))))"
    by (simp add: always_def server_error_def ok_def)
  then have "waitForCompletion (always server_error) (JStr ''t1'') ''imagegen'' ''flux_dev'' (JStr ''u1'')
        (JStr ''tok'') 60 0 []
       = (Inl (Error ''Failed to get status''),
          [] @ [Fetch (status_request (JStr ''t1'') ''imagegen'' ''flux_dev'' (JStr ''u1'') (JStr ''tok''))])"
    by (intro wfc_status_lost) simp_all
  then show ?thesis
    by (simp add: server_error_fails startsWith_def)
qed

section \<open>The call handlers\<close>

lemma wfc_extends:
  "\<exists>rest. snd (waitForCompletion net taskId category subcategory userId accessToken maxAttempts i tr)
            = tr @ rest"
proof (induction "maxAttempts - i" arbitrary: i tr)
  case 0
  then have "\<not> i < maxAttempts" by simp
  then show ?case by (simp add: wfc_exhausted)
next
  case (Suc d)
  then have i: "i < maxAttempts" and d: "d = maxAttempts - Suc i" by simp_all
  let ?req = "status_request taskId category subcategory userId accessToken"
  let ?sd = "json_or_null (net (requests_sent tr) ?req)"
  consider "\<not> truthy ?sd" | "truthy ?sd" "status_of ?sd = JStr ''completed''"
    | "truthy ?sd" "status_of ?sd = JStr ''failed''" | "truthy ?sd" "pending ?sd"
    by (auto simp: pending_def)
  then show ?case
  proof cases
    case 1
    with i show ?thesis by (simp add: wfc_status_lost)
  next
    case 2
    with i show ?thesis by (simp add: wfc_completed)
  next
    case 3
    with i show ?thesis by (simp add: wfc_failed)
  next
    case 4
    from Suc.hyps(1) [OF d, of "tr @ [Fetch ?req, Sleep (delay i)]"] obtain rest
      where "snd (waitForCompletion net taskId category subcategory userId accessToken maxAttempts (Suc i)
                (tr @ [Fetch ?req, Sleep (delay i)])) = (tr @ [Fetch ?req, Sleep (delay i)]) @ rest"
      by blast
    with wfc_pending [where net = net and tr = tr, OF i 4] show ?thesis by simp
  qed
qed

text \<open>The first thing the Worker's handler does with the object it receives is to send the
  request to \<open>/generate\<close>; whatever follows extends the trace.\<close>

lemma handler_first_request:
  "\<exists>res rest. handler net category subcategory (JObj args) tr
      = (res, tr @ Fetch (worker_request ''/generate''
                  (JObj (obj_assign [(''category'', JStr category), (''subcategory'', JStr subcategory)] args))
                  (obj_get args ''userId'') (obj_get args ''accessToken'')) # rest)"
proof -
  let ?req = "worker_request ''/generate''
                  (JObj (obj_assign [(''category'', JStr category), (''subcategory'', JStr subcategory)] args))
                  (obj_get args ''userId'') (obj_get args ''accessToken'')"
  have "\<exists>rest. snd (handler_try net category subcategory (JObj args) tr) = tr @ Fetch ?req # rest"
  proof (cases "truthy (opt_prop (opt_prop (json_or_null (net (requests_sent tr) ?req)) ''data'') ''id'')")
    case False
    then show ?thesis
      by (simp add: handler_try_def makeGenVRRequest_def Let_def)
  next
    case True
    from wfc_extends [of net "opt_prop (opt_prop (json_or_null (net (requests_sent tr) ?req)) ''data'') ''id''"
        category subcategory "obj_get args ''userId''" "obj_get args ''accessToken''" 60 0 "tr @ [Fetch ?req]"]
    obtain rest where "snd (waitForCompletion net
        (opt_prop (opt_prop (json_or_null (net (requests_sent tr) ?req)) ''data'') ''id'')
        category subcategory (obj_get args ''userId'') (obj_get args ''accessToken'') 60 0
        (tr @ [Fetch ?req])) = (tr @ [Fetch ?req]) @ rest"
      by blast
    with True show ?thesis
      by (simp add: handler_try_def makeGenVRRequest_def Let_def)
  qed
  then obtain rest where "snd (handler_try net category subcategory (JObj args) tr) = tr @ Fetch ?req # rest"
    by blast
  then have "snd (handler net category subcategory (JObj args) tr) = tr @ Fetch ?req # rest"
    by (auto simp: handler_def split: prod.splits sum.splits)
  then show ?thesis
    by (cases "handler net category subcategory (JObj args) tr") auto
qed

text \<open>The parse of a call's arguments against the fallback contract keeps the prompt and the two
  credentials (strings, as the contract demands) and drops every other field.\<close>

lemma fallback_parse:
  assumes "obj_get arguments ''prompt'' = JStr p"
    and "obj_get arguments ''userId'' = JStr u" and "obj_get arguments ''accessToken'' = JStr a"
  shows "zod_parse fallback_inputSchema arguments []
           = Some [(''prompt'', JStr p), (''userId'', JStr u), (''accessToken'', JStr a)]"
  by (simp add: fallback_inputSchema_def assms obj_set_def obj_put_name array_index_name)

text \<open>For a tool registered with the fallback contract, which declares the two credentials, an
  invocation that holds them sends them on: the body of the request to \<open>/generate\<close> has
  \<open>userId\<close> and \<open>accessToken\<close> as they came, next to the injected \<open>uid\<close>, and the Authorization
  header is \<open>Bearer <accessToken>\<close>.\<close>

lemma declared_credentials_are_forwarded:
  assumes "reg_inputSchema r = fallback_inputSchema"
    and "obj_get arguments ''prompt'' = JStr p"
    and "obj_get arguments ''userId'' = JStr u" and "obj_get arguments ''accessToken'' = JStr a"
  shows "\<exists>res rest. invoke net r (JObj arguments) tr
      = Some (res, tr @ Fetch \<lparr>url = ''https://api.genvrresearch.com/api/v1/generate'',
                 http_method = ''POST'', authorization = ''Bearer '' @ a,
                 req_body = Some (JObj [(''category'', JStr (reg_category r)),
                    (''subcategory'', JStr (reg_subcategory r)), (''prompt'', JStr p),
                    (''userId'', JStr u), (''accessToken'', JStr a), (''uid'', JStr u)])\<rparr> # rest)"
proof -
  have "worker_request ''/generate''
          (JObj (obj_assign [(''category'', JStr (reg_category r)), (''subcategory'', JStr (reg_subcategory r))]
                   [(''prompt'', JStr p), (''userId'', JStr u), (''accessToken'', JStr a)]))
          (obj_get [(''prompt'', JStr p), (''userId'', JStr u), (''accessToken'', JStr a)] ''userId'')
          (obj_get [(''prompt'', JStr p), (''userId'', JStr u), (''accessToken'', JStr a)] ''accessToken'')
        = \<lparr>url = ''https://api.genvrresearch.com/api/v1/generate'',
                 http_method = ''POST'', authorization = ''Bearer '' @ a,
                 req_body = Some (JObj [(''category'', JStr (reg_category r)),
                    (''subcategory'', JStr (reg_subcategory r)), (''prompt'', JStr p),
                    (''userId'', JStr u), (''accessToken'', JStr a), (''uid'', JStr u)])\<rparr>"
    by (simp add: worker_request_def GENVR_API_BASE_def text_of_def obj_put_name array_index_name)
  with handler_first_request [of net "reg_category r" "reg_subcategory r"
      "[(''prompt'', JStr p), (''userId'', JStr u), (''accessToken'', JStr a)]" tr]
  show ?thesis
    by (simp add: invoke_def fallback_parse [OF assms(2-4)] assms(1))
qed

text \<open>
  C10, at a failing input. The Worker registers, for a model whose cached schema declares the
  prompt alone, a contract with the prompt alone. An invocation of that tool with the arguments
  \<^verbatim>\<open>{prompt: "a cat", userId: "u1", accessToken: "tok"}\<close> reaches the handler as
  \<^verbatim>\<open>{prompt: "a cat"}\<close>: the request to \<open>/generate\<close> has the Authorization header
  \<open>Bearer undefined\<close>, and its body holds neither \<open>userId\<close> nor \<open>accessToken\<close> and an undefined
  \<open>uid\<close> (which the JSON text leaves out). The same invocation of the tool registered without a
  cached schema, whose fallback contract declares the two credentials, sends them.
\<close>

theorem undeclared_credentials_are_dropped:
  "(\<exists>r. init [flux] prompt_cache = Inr [r]
        \<and> reg_name r = ''generate_imagegen_flux_dev''
        \<and> reg_inputSchema r = [(''prompt'', ZString (JStr []))]
        \<and> invoke (always server_error) r
             (JObj [(''prompt'', JStr ''a cat''), (''userId'', JStr ''u1''), (''accessToken'', JStr ''tok'')]) []
           = Some (\<lparr>content = [Text ''Tool execution failed: No task ID returned from generate endpoint''],
                    structuredContent = None, isError = Some True\<rparr>,
                   [Fetch \<lparr>url = ''https://api.genvrresearch.com/api/v1/generate'', http_method = ''POST'',
                      authorization = ''Bearer undefined'',
                      req_body = Some (JObj [(''category'', JStr ''imagegen''),
                         (''subcategory'', JStr ''flux_dev''), (''prompt'', JStr ''a cat''),
                         (''uid'', JUndefined)])\<rparr>]))
   \<and> (\<exists>r. init [flux] (JObj []) = Inr [r]
        \<and> reg_name r = ''generate_imagegen_flux_dev''
        \<and> map fst (reg_inputSchema r) = [''prompt'', ''userId'', ''accessToken'']
        \<and> invoke (always server_error) r
             (JObj [(''prompt'', JStr ''a cat''), (''userId'', JStr ''u1''), (''accessToken'', JStr ''tok'')]) []
           = Some (\<lparr>content = [Text ''Tool execution failed: No task ID returned from generate endpoint''],
                    structuredContent = None, isError = Some True\<rparr>,
                   [Fetch \<lparr>url = ''https://api.genvrresearch.com/api/v1/generate'', http_method = ''POST'',
                      authorization = ''Bearer tok'',
                      req_body = Some (JObj [(''category'', JStr ''imagegen''),
                         (''subcategory'', JStr ''flux_dev''), (''prompt'', JStr ''a cat''),
                         (''userId'', JStr ''u1''), (''accessToken'', JStr ''tok''),
                         (''uid'', JStr ''u1'')])\<rparr>]))"
proof -
  note run = invoke_def handler_def handler_try_def makeGenVRRequest_def worker_request_def
    text_of_def always_def server_error_def ok_def opt_prop_def GENVR_API_BASE_def requests_sent_Nil
    obj_set_def obj_put_name array_index_name Let_def
  have 1: "init [flux] prompt_cache
      = Inr [\<lparr>reg_name = ''generate_imagegen_flux_dev'',
               reg_inputSchema = [(''prompt'', ZString (JStr []))],
               reg_category = ''imagegen'', reg_subcategory = ''flux_dev''\<rparr>]"
    by (simp add: init_def curatedModelKeys_def register_model_def split_modelKey_def flux_def
          prompt_cache_def zod_of_def js_or_def obj_set_def obj_put_name array_index_name Let_def)
  have 2: "init [flux] (JObj [])
      = Inr [\<lparr>reg_name = ''generate_imagegen_flux_dev'', reg_inputSchema = fallback_inputSchema,
               reg_category = ''imagegen'', reg_subcategory = ''flux_dev''\<rparr>]"
    by (simp add: init_def curatedModelKeys_def register_model_def split_modelKey_def flux_def Let_def)
  show ?thesis
  proof (intro conjI)
    show "\<exists>r. init [flux] prompt_cache = Inr [r]
        \<and> reg_name r = ''generate_imagegen_flux_dev''
        \<and> reg_inputSchema r = [(''prompt'', ZString (JStr []))]
        \<and> invoke (always server_error) r
             (JObj [(''prompt'', JStr ''a cat''), (''userId'', JStr ''u1''), (''accessToken'', JStr ''tok'')]) []
           = Some (\<lparr>content = [Text ''Tool execution failed: No task ID returned from generate endpoint''],
                    structuredContent = None, isError = Some True\<rparr>,
                   [Fetch \<lparr>url = ''https://api.genvrresearch.com/api/v1/generate'', http_method = ''POST'',
                      authorization = ''Bearer undefined'',
                      req_body = Some (JObj [(''category'', JStr ''imagegen''),
                         (''subcategory'', JStr ''flux_dev''), (''prompt'', JStr ''a cat''),
                         (''uid'', JUndefined)])\<rparr>])"
      unfolding 1
      by (rule exI [of _ "\<lparr>reg_name = ''generate_imagegen_flux_dev'',
               reg_inputSchema = [(''prompt'', ZString (JStr []))],
               reg_category = ''imagegen'', reg_subcategory = ''flux_dev''\<rparr>"])
         (simp add: run)
    show "\<exists>r. init [flux] (JObj []) = Inr [r]
        \<and> reg_name r = ''generate_imagegen_flux_dev''
        \<and> map fst (reg_inputSchema r) = [''prompt'', ''userId'', ''accessToken'']
        \<and> invoke (always server_error) r
             (JObj [(''prompt'', JStr ''a cat''), (''userId'', JStr ''u1''), (''accessToken'', JStr ''tok'')]) []
           = Some (\<lparr>content = [Text ''Tool execution failed: No task ID returned from generate endpoint''],
                    structuredContent = None, isError = Some True\<rparr>,
                   [Fetch \<lparr>url = ''https://api.genvrresearch.com/api/v1/generate'', http_method = ''POST'',
                      authorization = ''Bearer tok'',
                      req_body = Some (JObj [(''category'', JStr ''imagegen''),
                         (''subcategory'', JStr ''flux_dev''), (''prompt'', JStr ''a cat''),
                         (''userId'', JStr ''u1''), (''accessToken'', JStr ''tok''),
                         (''uid'', JStr ''u1'')])\<rparr>])"
      unfolding 2
      by (rule exI [of _ "\<lparr>reg_name = ''generate_imagegen_flux_dev'',
               reg_inputSchema = fallback_inputSchema,
               reg_category = ''imagegen'', reg_subcategory = ''flux_dev''\<rparr>"])
         (simp add: run fallback_inputSchema_def)
  qed
qed

subsection \<open>Errors at the dispatch boundary\<close>

text \<open>The \<^verbatim>\<open>catch\<close> of each handler: what the body of the \<^verbatim>\<open>try\<close> throws becomes a tool
  result with \<open>isError\<close> true and one text entry, and what it returns becomes a result without
  \<open>isError\<close>.\<close>

lemma catch_converts_errors:
  "handler_try net category subcategory args tr = (Inl err, tr') \<Longrightarrow>
     handler net category subcategory args tr
       = (\<lparr>content = [Text (''Tool execution failed: '' @ message err)],
            structuredContent = None, isError = Some True\<rparr>, tr')"
  "call_tool_try e net name args tr = (Inl err, tr') \<Longrightarrow>
     call_tool e net name args tr
       = (\<lparr>content = [Text (''Error: '' @ message err)],
            structuredContent = None, isError = Some True\<rparr>, tr')"
  by (simp_all add: handler_def call_tool_def)

text \<open>In the Worker, a request to \<open>/generate\<close> that fails at the transport level reaches the
  \<^verbatim>\<open>catch\<close> as the missing task id, and an error of the poll reaches it as it was raised.\<close>

lemma handler_reports_failed_generate:
  assumes "transport_failure (net (requests_sent tr)
             (worker_request ''/generate''
                (JObj (obj_assign [(''category'', JStr category), (''subcategory'', JStr subcategory)] args))
                (obj_get args ''userId'') (obj_get args ''accessToken'')))"
  shows "handler net category subcategory (JObj args) tr
           = (\<lparr>content = [Text ''Tool execution failed: No task ID returned from generate endpoint''],
                structuredContent = None, isError = Some True\<rparr>,
              tr @ [Fetch (worker_request ''/generate''
                (JObj (obj_assign [(''category'', JStr category), (''subcategory'', JStr subcategory)] args))
                (obj_get args ''userId'') (obj_get args ''accessToken''))])"
  using failure_json_or_null [OF assms]
  by (simp add: handler_def handler_try_def makeGenVRRequest_def Let_def opt_prop_def)

lemma handler_reports_poll:
  assumes "answers (net (requests_sent tr)
             (worker_request ''/generate''
                (JObj (obj_assign [(''category'', JStr category), (''subcategory'', JStr subcategory)] args))
                (obj_get args ''userId'') (obj_get args ''accessToken''))) generateData"
    and "truthy (opt_prop (opt_prop generateData ''data'') ''id'')"
  shows "handler net category subcategory (JObj args) tr
           = (case waitForCompletion net (opt_prop (opt_prop generateData ''data'') ''id'')
                     category subcategory (obj_get args ''userId'') (obj_get args ''accessToken'') 60 0
                     (tr @ [Fetch (worker_request ''/generate''
                        (JObj (obj_assign [(''category'', JStr category), (''subcategory'', JStr subcategory)] args))
                        (obj_get args ''userId'') (obj_get args ''accessToken''))]) of
                (Inr result, tr') \<Rightarrow>
                  (\<lparr>content = [Pretty_JSON result], structuredContent = Some result, isError = None\<rparr>, tr')
              | (Inl err, tr') \<Rightarrow>
                  (\<lparr>content = [Text (''Tool execution failed: '' @ message err)],
                    structuredContent = None, isError = Some True\<rparr>, tr'))"
  using answers_json_or_null [OF assms(1)] assms(2)
  by (simp add: handler_def handler_try_def makeGenVRRequest_def Let_def)

text \<open>In the standalone server a failed request to \<open>/generate\<close> reaches the \<^verbatim>\<open>catch\<close> as
  the error \<^verbatim>\<open>callGenVRAPI\<close> threw.\<close>

lemma call_tool_reports_failed_generate:
  assumes "route name args = Inr (category, subcategory, flatParams)"
    and "transport_failure (net (requests_sent tr)
           (api_request e ''/generate''
              (JObj (obj_assign [(''category'', JStr category), (''subcategory'', JStr subcategory)]
                       flatParams))))"
  shows "call_tool e net name args tr
           = (\<lparr>content = [Text (''Error: '' @ message (thrown_for (net (requests_sent tr)
                  (api_request e ''/generate''
                     (JObj (obj_assign [(''category'', JStr category), (''subcategory'', JStr subcategory)]
                              flatParams))))))],
                structuredContent = None, isError = Some True\<rparr>,
              tr @ [Fetch (api_request e ''/generate''
                     (JObj (obj_assign [(''category'', JStr category), (''subcategory'', JStr subcategory)]
                              flatParams)))])"
  using failure_json_or_throw [OF assms(2)] assms(1)
  by (simp add: call_tool_def call_tool_try_def callGenVRAPI_def Let_def)

text \<open>
  C9, at a failing input. The remote system accepts the job, reports it completed, and answers
  the fetch of the result with HTTP 500. In the Worker, the invocation of the tool (registered
  with the fallback contract) ends with a result that has no \<open>isError\<close>, the text \<open>null\<close> and
  the structured content \<^verbatim>\<open>null\<close>: the error raised for the failed request is caught inside
  \<^verbatim>\<open>makeGenVRRequest\<close> and never becomes an error result. The standalone server, at the same
  remote system, returns the error result \<open>Error: GenVR API error: 500 Internal Server Error - boom\<close>.
\<close>

theorem lost_result_is_reported_as_success:
  "(\<exists>r. init [flux] (JObj []) = Inr [r]
        \<and> reg_name r = ''generate_imagegen_flux_dev''
        \<and> invoke result_lost r
             (JObj [(''prompt'', JStr ''a cat''), (''userId'', JStr ''u1''), (''accessToken'', JStr ''tok'')]) []
           = Some (\<lparr>content = [Pretty_JSON JNull], structuredContent = Some JNull, isError = None\<rparr>,
                   [Fetch \<lparr>url = ''https://api.genvrresearch.com/api/v1/generate'', http_method = ''POST'',
                      authorization = ''Bearer tok'',
                      req_body = Some (JObj [(''category'', JStr ''imagegen''),
                         (''subcategory'', JStr ''flux_dev''), (''prompt'', JStr ''a cat''),
                         (''userId'', JStr ''u1''), (''accessToken'', JStr ''tok''),
                         (''uid'', JStr ''u1'')])\<rparr>,
                    Fetch \<lparr>url = ''https://api.genvrresearch.com/api/v1/status'', http_method = ''POST'',
                      authorization = ''Bearer tok'',
                      req_body = Some (JObj [(''id'', JStr ''t1''), (''category'', JStr ''imagegen''),
                         (''subcategory'', JStr ''flux_dev''), (''uid'', JStr ''u1'')])\<rparr>,
                    Fetch \<lparr>url = ''https://api.genvrresearch.com/api/v1/response'', http_method = ''POST'',
                      authorization = ''Bearer tok'',
                      req_body = Some (JObj [(''id'', JStr ''t1''), (''category'', JStr ''imagegen''),
                         (''subcategory'', JStr ''flux_dev''), (''uid'', JStr ''u1'')])\<rparr>]))
   \<and> transport_failure (result_lost 2
         \<lparr>url = ''https://api.genvrresearch.com/api/v1/response'', http_method = ''POST'',
          authorization = ''Bearer tok'',
          req_body = Some (JObj [(''id'', JStr ''t1''), (''category'', JStr ''imagegen''),
             (''subcategory'', JStr ''flux_dev''), (''uid'', JStr ''u1'')])\<rparr>)
   \<and> call_tool sample_env result_lost ''generate_imagegen_flux_dev'' (JObj [(''prompt'', JStr ''a cat'')]) []
       = (\<lparr>content = [Text ''Error: GenVR API error: 500 Internal Server Error - boom''],
            structuredContent = None, isError = Some True\<rparr>,
          [Fetch \<lparr>url = ''https://api.genvrresearch.com/api/v1/generate'', http_method = ''POST'',
             authorization = ''Bearer tok'',
             req_body = Some (JObj [(''category'', JStr ''imagegen''),
                (''subcategory'', JStr ''flux_dev''), (''prompt'', JStr ''a cat''),
                (''uid'', JStr ''u1'')])\<rparr>,
           Fetch \<lparr>url = ''https://api.genvrresearch.com/api/v1/status'', http_method = ''POST'',
             authorization = ''Bearer tok'',
             req_body = Some (JObj [(''id'', JStr ''t1''), (''category'', JStr ''imagegen''),
                (''subcategory'', JStr ''flux_dev''), (''uid'', JStr ''u1'')])\<rparr>,
           Fetch \<lparr>url = ''https://api.genvrresearch.com/api/v1/response'', http_method = ''POST'',
             authorization = ''Bearer tok'',
             req_body = Some (JObj [(''id'', JStr ''t1''), (''category'', JStr ''imagegen''),
                (''subcategory'', JStr ''flux_dev''), (''uid'', JStr ''u1'')])\<rparr>])"
proof -
  note net = result_lost_def scripted_def json_response_def server_error_def ok_def with_status_def
  note obj = obj_set_def obj_put_name array_index_name opt_prop_def js_or_def status_of_def
  have i: "init [flux] (JObj [])
      = Inr [\<lparr>reg_name = ''generate_imagegen_flux_dev'', reg_inputSchema = fallback_inputSchema,
               reg_category = ''imagegen'', reg_subcategory = ''flux_dev''\<rparr>]"
    by (simp add: init_def curatedModelKeys_def register_model_def split_modelKey_def flux_def Let_def)
  have w: "waitForCompletion result_lost (JStr ''t1'') ''imagegen'' ''flux_dev'' (JStr ''u1'') (JStr ''tok'')
              60 0 [Fetch g]
      = (Inr JNull, [Fetch g,
           Fetch (status_request (JStr ''t1'') ''imagegen'' ''flux_dev'' (JStr ''u1'') (JStr ''tok'')),
           Fetch (result_request (JStr ''t1'') ''imagegen'' ''flux_dev'' (JStr ''u1'') (JStr ''tok''))])" for g
    by (subst wfc_completed) (simp_all add: net obj requests_sent_simps requests_sent_Nil)
  have l: "lite_waitForCompletion sample_env result_lost (JStr ''t1'') ''imagegen'' ''flux_dev'' 60 0 [Fetch g]
      = (Inl (Error ''GenVR API error: 500 Internal Server Error - boom''), [Fetch g,
           Fetch (lite_status_request sample_env (JStr ''t1'') ''imagegen'' ''flux_dev''),
           Fetch (lite_result_request sample_env (JStr ''t1'') ''imagegen'' ''flux_dev'')])" for g
    by (subst lite_completed [where sd = "with_status ''completed''"])
       (simp_all add: net obj requests_sent_simps requests_sent_Nil api_error_def digit_def)
  have n0: "result_lost 0 req = json_response (JObj [(''data'', JObj [(''id'', JStr ''t1'')])])" for req
    by (simp add: result_lost_def scripted_def)
  have j: "json_or_null (json_response v) = v" "json_or_throw (json_response v) = Inr v" for v
    by (simp_all add: json_response_def ok_def)
  have e: "api_base sample_env = ''https://api.genvrresearch.com/api/v1''"
    "GENVR_ACCESS_TOKEN sample_env = ''tok''" "GENVR_USER_ID sample_env = ''u1''"
    by (simp_all add: api_base_def sample_env_def)
  have 1: "invoke result_lost
             \<lparr>reg_name = ''generate_imagegen_flux_dev'', reg_inputSchema = fallback_inputSchema,
               reg_category = ''imagegen'', reg_subcategory = ''flux_dev''\<rparr>
             (JObj [(''prompt'', JStr ''a cat''), (''userId'', JStr ''u1''), (''accessToken'', JStr ''tok'')]) []
           = Some (\<lparr>content = [Pretty_JSON JNull], structuredContent = Some JNull, isError = None\<rparr>,
                   [Fetch \<lparr>url = ''https://api.genvrresearch.com/api/v1/generate'', http_method = ''POST'',
                      authorization = ''Bearer tok'',
                      req_body = Some (JObj [(''category'', JStr ''imagegen''),
                         (''subcategory'', JStr ''flux_dev''), (''prompt'', JStr ''a cat''),
                         (''userId'', JStr ''u1''), (''accessToken'', JStr ''tok''),
                         (''uid'', JStr ''u1'')])\<rparr>,
                    Fetch \<lparr>url = ''https://api.genvrresearch.com/api/v1/status'', http_method = ''POST'',
                      authorization = ''Bearer tok'',
                      req_body = Some (JObj [(''id'', JStr ''t1''), (''category'', JStr ''imagegen''),
                         (''subcategory'', JStr ''flux_dev''), (''uid'', JStr ''u1'')])\<rparr>,
                    Fetch \<lparr>url = ''https://api.genvrresearch.com/api/v1/response'', http_method = ''POST'',
                      authorization = ''Bearer tok'',
                      req_body = Some (JObj [(''id'', JStr ''t1''), (''category'', JStr ''imagegen''),
                         (''subcategory'', JStr ''flux_dev''), (''uid'', JStr ''u1'')])\<rparr>])"
    by (simp add: invoke_def fallback_inputSchema_def handler_def handler_try_def makeGenVRRequest_def
          Let_def n0 j obj requests_sent_Nil w status_request_explicit result_request_explicit
          worker_request_def GENVR_API_BASE_def text_of_def)
  have 2: "call_tool sample_env result_lost ''generate_imagegen_flux_dev'' (JObj [(''prompt'', JStr ''a cat'')]) []
       = (\<lparr>content = [Text ''Error: GenVR API error: 500 Internal Server Error - boom''],
            structuredContent = None, isError = Some True\<rparr>,
          [Fetch \<lparr>url = ''https://api.genvrresearch.com/api/v1/generate'', http_method = ''POST'',
             authorization = ''Bearer tok'',
             req_body = Some (JObj [(''category'', JStr ''imagegen''),
                (''subcategory'', JStr ''flux_dev''), (''prompt'', JStr ''a cat''),
                (''uid'', JStr ''u1'')])\<rparr>,
           Fetch \<lparr>url = ''https://api.genvrresearch.com/api/v1/status'', http_method = ''POST'',
             authorization = ''Bearer tok'',
             req_body = Some (JObj [(''id'', JStr ''t1''), (''category'', JStr ''imagegen''),
                (''subcategory'', JStr ''flux_dev''), (''uid'', JStr ''u1'')])\<rparr>,
           Fetch \<lparr>url = ''https://api.genvrresearch.com/api/v1/response'', http_method = ''POST'',
             authorization = ''Bearer tok'',
             req_body = Some (JObj [(''id'', JStr ''t1''), (''category'', JStr ''imagegen''),
                (''subcategory'', JStr ''flux_dev''), (''uid'', JStr ''u1'')])\<rparr>])"
    by (simp add: call_tool_def call_tool_try_def route_def unwrap_parameters_def parse_tool_name_def
          startsWith_def expand_category_def obj_delete_def callGenVRAPI_def Let_def n0 j obj
          requests_sent_Nil l lite_status_request_explicit lite_result_request_explicit
          api_request_def e)
  have 3: "transport_failure (result_lost 2
         \<lparr>url = ''https://api.genvrresearch.com/api/v1/response'', http_method = ''POST'',
          authorization = ''Bearer tok'',
          req_body = Some (JObj [(''id'', JStr ''t1''), (''category'', JStr ''imagegen''),
             (''subcategory'', JStr ''flux_dev''), (''uid'', JStr ''u1'')])\<rparr>)"
    by (simp add: net)
  show ?thesis
    unfolding i
    by (intro conjI 2 3,
        rule exI [of _ "\<lparr>reg_name = ''generate_imagegen_flux_dev'', reg_inputSchema = fallback_inputSchema,
               reg_category = ''imagegen'', reg_subcategory = ''flux_dev''\<rparr>"])
       (simp add: 1)
qed

section \<open>The schema translators\<close>

lemma translate_entries_keys:
  assumes "translate_entries schema entries properties required = Inr (properties', required')"
    and "k \<in> fst ` set properties'"
  shows "k \<in> fst ` set properties
           \<or> (\<not> reserved_key k
               \<and> (\<exists>p. (k, p) \<in> set entries \<and> get_prop p ''display'' \<noteq> JStr ''hidden''))"
  using assms
proof (induction entries arbitrary: properties required)
  case Nil
  then show ?case by simp
next
  case (Cons entry entries)
  obtain key p where entry: "entry = (key, p)" by (cases entry)
  show ?case
  proof (cases "nullish p \<or> get_prop p ''display'' = JStr ''hidden'' \<or> reserved_key key")
    case True
    with Cons.prems entry
    have "translate_entries schema entries properties required = Inr (properties', required')"
      by (auto split: if_splits)
    from Cons.IH [OF this Cons.prems(2)] show ?thesis by auto
  next
    case False
    with Cons.prems(1) entry obtain b
      where "translate_entries schema entries (obj_set key (JObj (propDef_of key p)) properties)
               (if b then required @ [key] else required) = Inr (properties', required')"
      by (auto split: sum.splits)
    from Cons.IH [OF this Cons.prems(2)]
    have "k \<in> insert key (fst ` set properties)
           \<or> (\<not> reserved_key k
               \<and> (\<exists>p. (k, p) \<in> set entries \<and> get_prop p ''display'' \<noteq> JStr ''hidden''))"
      by (simp add: obj_set_keys split: if_splits)
    with False entry show ?thesis by auto
  qed
qed

text \<open>The translator of the standalone server hides what it should: a key of the translated
  contract is not reserved, and it is the key of a property of the raw schema that is not
  hidden.\<close>

lemma translate_schema_hides:
  assumes "translate_schema cachedSchema = Inr inputSchema"
    and "k \<in> fst ` set (own_props (get_prop inputSchema ''properties''))"
  shows "\<not> reserved_key k
           \<and> (\<exists>p. (k, p) \<in> set (own_props (get_prop (get_prop cachedSchema ''schema'') ''properties''))
                 \<and> get_prop p ''display'' \<noteq> JStr ''hidden'')"
proof (cases "truthy cachedSchema \<and> truthy (get_prop cachedSchema ''schema'')
         \<and> truthy (get_prop (get_prop cachedSchema ''schema'') ''properties'')")
  case False
  with assms show ?thesis
    by (auto simp: translate_schema_def make_inputSchema_def)
next
  case True
  with assms(1) obtain properties required
    where t: "translate_entries (get_prop cachedSchema ''schema'')
                (own_props (get_prop (get_prop cachedSchema ''schema'') ''properties'')) [] []
              = Inr (properties, required)"
      and i: "inputSchema = make_inputSchema properties required"
    by (auto simp: translate_schema_def split: sum.splits)
  from i assms(2) have "k \<in> fst ` set properties"
    by (simp add: make_inputSchema_def)
  from translate_entries_keys [OF t this] show ?thesis by simp
qed

text \<open>
  C4, at a failing input. The Worker's \<^verbatim>\<open>init\<close> converts every property of a cached schema:
  for a schema with the properties \<open>prompt\<close>, \<open>seed\<close> (hidden) and \<open>token\<close> (reserved), the
  contract it registers has all three keys. (\<^verbatim>\<open>generateTools\<close> leaves \<open>seed\<close> and \<open>token\<close>
  out of the same schema.)
\<close>

theorem init_exposes_hidden_and_reserved:
  "map_sum id (map (map fst \<circ> reg_inputSchema)) (init [flux] worker_cache)
     = Inr [[''prompt'', ''seed'', ''token'']]
   \<and> get_prop (get_prop sample_properties ''seed'') ''display'' = JStr ''hidden''
   \<and> reserved_key ''token''
   \<and> map_sum id (map (map fst \<circ> own_props \<circ> (\<lambda>t. get_prop (tool_inputSchema t) ''properties'')))
        (generateTools lite_cache [flux])
     = Inr [[''prompt'']]"
  by (simp add: init_def curatedModelKeys_def register_model_def split_modelKey_def flux_def
        worker_cache_def lite_cache_def sample_properties_def zod_of_def js_or_def reserved_key_def
        generate_tool_def translate_schema_def make_inputSchema_def propDef_of_def put_if_def
        obj_set_def obj_put_name array_index_name opt_prop_def Let_def)

section \<open>The parameters the router forwards\<close>

text \<open>After one unwrapping the router does remove the two reserved fields: when the parameters
  it has then (flat arguments, or the contents of \<^verbatim>\<open>parameters\<close>) hold no field
  \<^verbatim>\<open>parameters\<close> of their own, neither reserved field is among the parameters it forwards.\<close>

lemma route_strips_reserved:
  assumes "route name args = Inr (category, subcategory, flatParams)"
    and "''parameters'' \<notin> fst ` set (unwrap_parameters args)"
  shows "''category_genvr'' \<notin> fst ` set flatParams \<and> ''subcategory_genvr'' \<notin> fst ` set flatParams"
proof -
  define use_model where "use_model \<longleftrightarrow>
     truthy (obj_get (unwrap_parameters args) ''model'')
       \<and> typeof_string (obj_get (unwrap_parameters args) ''model'') \<and> snd (parse_tool_name name) = []"
  define parameters where "parameters =
     obj_delete ''subcategory_genvr'' (obj_delete ''category_genvr''
       (if use_model then obj_delete ''model'' (unwrap_parameters args) else unwrap_parameters args))"
  have keys: "fst ` set (obj_assign [] parameters) \<subseteq> fst ` set (unwrap_parameters args)
                 - {''category_genvr'', ''subcategory_genvr''}"
    by (auto simp: parameters_def obj_assign_keys obj_delete_keys)
  with assms(2) have "obj_get (obj_assign [] parameters) ''parameters'' = JUndefined"
    by (intro obj_get_absent) auto
  with assms(1) have "flatParams = obj_assign [] parameters"
    by (auto simp: route_def Let_def parameters_def use_model_def split: if_splits prod.splits)
  with keys show ?thesis by auto
qed

text \<open>
  C5, at a failing input. For arguments wrapped twice in \<^verbatim>\<open>parameters\<close>, the two deletions
  run on the outer wrapper and the second unwrapping comes after them: the parameters the router
  forwards, and the body sent to \<open>/generate\<close>, hold \<open>category_genvr\<close> and \<open>subcategory_genvr\<close>.
\<close>

theorem route_keeps_reserved_when_wrapped_twice:
  "route ''generate_imagegen_flux_dev'' wrapped_twice
     = Inr (''imagegen'', ''flux_dev'',
            [(''prompt'', JStr ''a cat''), (''category_genvr'', JStr ''imagegen''),
             (''subcategory_genvr'', JStr ''flux_dev'')])
   \<and> snd (call_tool sample_env (always server_error) ''generate_imagegen_flux_dev'' wrapped_twice [])
     = [Fetch \<lparr>url = ''https://api.genvrresearch.com/api/v1/generate'', http_method = ''POST'',
               authorization = ''Bearer tok'',
               req_body = Some (JObj [(''category'', JStr ''imagegen''), (''subcategory'', JStr ''flux_dev''),
                  (''prompt'', JStr ''a cat''), (''category_genvr'', JStr ''imagegen''),
                  (''subcategory_genvr'', JStr ''flux_dev''), (''uid'', JStr ''u1'')])\<rparr>]"
  by (simp add: call_tool_def call_tool_try_def route_def unwrap_parameters_def parse_tool_name_def
        startsWith_def expand_category_def wrapped_twice_def obj_delete_def callGenVRAPI_def
        api_request_def api_base_def sample_env_def always_def server_error_def ok_def Let_def
        requests_sent_Nil obj_put_name array_index_name)

theorem route_keeps_reserved_when_wrapped_twice_witness:
  "truthy wrapped_twice \<and> typeof_object wrapped_twice
   \<and> startsWith ''generate_imagegen_flux_dev'' ''generate_''
   \<and> map_sum id (set \<circ> map fst \<circ> snd \<circ> snd) (route ''generate_imagegen_flux_dev'' wrapped_twice)
       = Inr {''prompt'', ''category_genvr'', ''subcategory_genvr''}"
  using route_keeps_reserved_when_wrapped_twice
  by (auto simp: wrapped_twice_def startsWith_def)

end

